theory Spec2Isabelle
  imports Complex_Main "HOL-Library.AList"
begin

section \<open>Python values, dictionaries and errors\<close>

text \<open>
  The program \<^verbatim>\<open>metar.py\<close> works on JSON decoded by \<^verbatim>\<open>r.json()\<close>: dictionaries
  from strings to values of any type. A value is an integer, a float, a string or
  \<^verbatim>\<open>None\<close>. Floats are modelled as exact reals: the arithmetic of the model is the
  arithmetic of the source without the rounding error of IEEE doubles. A dictionary is
  an association list in insertion order, as Python keeps it.
\<close>

datatype pyval = VInt int | VFloat real | VStr string | VNone

type_synonym pydict = "(string \<times> pyval) list"

datatype error = KeyError | IndexError | TypeError | ValueError | HTTPError nat | TransportError

text \<open>\<^verbatim>\<open>d[k]\<close>: raises \<^verbatim>\<open>KeyError\<close> when the key is absent.\<close>

definition getitem :: "pydict \<Rightarrow> string \<Rightarrow> error + pyval" where
  "getitem d k = (case map_of d k of None \<Rightarrow> Inl KeyError | Some v \<Rightarrow> Inr v)"

text \<open>\<^verbatim>\<open>d.update(e)\<close> and \<^verbatim>\<open>{**d, **e}\<close>: the entries of \<open>e\<close> are stored one by one.\<close>

definition dict_update :: "pydict \<Rightarrow> pydict \<Rightarrow> pydict" where
  "dict_update d e = foldl (\<lambda>acc kv. AList.update (fst kv) (snd kv) acc) d e"

text \<open>Sequencing of computations that may raise.\<close>

definition bind :: "error + 'a \<Rightarrow> ('a \<Rightarrow> error + 'b) \<Rightarrow> error + 'b" where
  "bind m f = (case m of Inl e \<Rightarrow> Inl e | Inr x \<Rightarrow> f x)"

text \<open>
  A value used as a number in arithmetic or in an ordering comparison with a number:
  \<^verbatim>\<open>TypeError\<close> for a string and for \<^verbatim>\<open>None\<close>.
\<close>

definition as_num :: "pyval \<Rightarrow> error + real" where
  "as_num v = (case v of VInt i \<Rightarrow> Inr (of_int i) | VFloat x \<Rightarrow> Inr x | _ \<Rightarrow> Inl TypeError)"

text \<open>\<^verbatim>\<open>v == -1\<close>: true for the integer and for the float, false for every other value.\<close>

definition eq_minus1 :: "pyval \<Rightarrow> bool" where
  "eq_minus1 v = (case v of VInt i \<Rightarrow> i = - 1 | VFloat x \<Rightarrow> x = - 1 | _ \<Rightarrow> False)"

text \<open>
  Python 3's \<^verbatim>\<open>round(x)\<close> with one argument: the nearest integer, a tie going to the
  even neighbour.
\<close>

definition py_round :: "real \<Rightarrow> int" where
  "py_round x =
     (let f = \<lfloor>x\<rfloor>; d = x - of_int f
      in if d < 1 / 2 then f else if 1 / 2 < d then f + 1 else if even f then f else f + 1)"

section \<open>Configuration\<close>

definition STATIONS :: "(string \<times> string) list" where
  "STATIONS = [(''06170'', ''EKRK''), (''06156'', ''EKHK'')]"

definition PARAMS :: "(string \<times> string) list" where
  "PARAMS =
     [(''temp_dew'', ''temp_dew_c''),
      (''temp_dry'', ''temp_dry_c''),
      (''visib_mean_last10min'', ''visibility_m''),
      (''pressure_at_sea'', ''qnh_hpa''),
      (''wind_dir'', ''wind_dir_deg''),
      (''wind_speed'', ''wind_speed_ms''),
      (''wind_max'', ''wind_gust_ms''),
      (''cloud_cover'', ''cloud_cover_pct''),
      (''cloud_height'', ''cloud_height_m'')]"

section \<open>The payload and the value extractor\<close>

text \<open>
  A payload is the provider's feature collection. Each feature carries, under
  \<^verbatim>\<open>properties\<close>, the parameter identifier, the value and the observation time.
  The payload is typed: the keys \<^verbatim>\<open>features\<close>, \<^verbatim>\<open>properties\<close>, \<^verbatim>\<open>parameterId\<close>,
  \<^verbatim>\<open>value\<close> and \<^verbatim>\<open>observed\<close> are there, and the identifier and the time are
  strings. The value is any Python value; the feature list may be empty.
\<close>

record feature =
  parameterId :: string
  value_f :: pyval
  observed :: string

record payload =
  features :: "feature list"

text \<open>
  \<^verbatim>\<open>latest_values\<close>: the loop over the features, with the dictionary \<open>result\<close> as its
  state. The \<^verbatim>\<open>break\<close> returns the dictionary at once.
\<close>

fun latest_loop :: "feature list \<Rightarrow> pydict \<Rightarrow> error + pydict" where
  "latest_loop [] result = Inr result"
| "latest_loop (feat # rest) result =
     (case map_of PARAMS (parameterId feat) of
        None \<Rightarrow> latest_loop rest result
      | Some alias \<Rightarrow>
          if alias = [] then latest_loop rest result
          else bind (getitem result alias) (\<lambda>cur.
            if eq_minus1 cur then
              (let result' = AList.update alias (value_f feat) result
               in if list_all (\<lambda>v. \<not> eq_minus1 v) (map snd result') then Inr result'
                  else latest_loop rest result')
            else latest_loop rest result))"

definition latest_values :: "payload \<Rightarrow> error + pydict" where
  "latest_values p = latest_loop (features p) (map (\<lambda>alias. (alias, VInt (- 1))) (map snd PARAMS))"

section \<open>Strings\<close>

text \<open>
  Strings are lists of bytes; the two arrows of the runway block, which are not ASCII,
  are their UTF-8 encodings. \<open>NL\<close> is the newline character.
\<close>

definition NL :: string where
  "NL = [CHR 0x0A]"

definition larrow :: string where
  "larrow = [CHR 0xE2, CHR 0x86, CHR 0x90]"

definition rarrow :: string where
  "rarrow = [CHR 0xE2, CHR 0x86, CHR 0x92]"

text \<open>\<^verbatim>\<open>str(n)\<close> for an integer: the decimal digits, with a minus sign when negative.\<close>

fun digits :: "nat \<Rightarrow> string" where
  "digits n = (if n < 10 then [''0123456789'' ! n] else digits (n div 10) @ [''0123456789'' ! (n mod 10)])"

declare digits.simps [simp del]

definition str_int :: "int \<Rightarrow> string" where
  "str_int i = (if i < 0 then CHR ''-'' # digits (nat (- i)) else digits (nat i))"

text \<open>
  \<^verbatim>\<open>str(v)\<close> and the formatting of \<open>v\<close> in an f-string. The digits Python prints for a
  float are those of the shortest decimal that reads back as the same double, which has
  no counterpart on the reals: the function \<open>float_str\<close> that prints a float is a
  parameter of the formatter.
\<close>

definition py_str :: "(real \<Rightarrow> string) \<Rightarrow> pyval \<Rightarrow> string" where
  "py_str float_str v =
     (case v of VInt i \<Rightarrow> str_int i | VFloat x \<Rightarrow> float_str x | VStr s \<Rightarrow> s | VNone \<Rightarrow> ''None'')"

text \<open>\<^verbatim>\<open>s.zfill(width)\<close>: zeros go after a leading sign.\<close>

definition zfill :: "string \<Rightarrow> nat \<Rightarrow> string" where
  "zfill s width =
     (if width \<le> length s then s
      else case s of
             [] \<Rightarrow> replicate width (CHR ''0'')
           | c # rest \<Rightarrow>
               if c = CHR ''+'' \<or> c = CHR ''-''
               then c # replicate (width - length s) (CHR ''0'') @ rest
               else replicate (width - length s) (CHR ''0'') @ s)"

text \<open>Truth value of a Python value in a condition.\<close>

definition truthy :: "pyval \<Rightarrow> bool" where
  "truthy v = (case v of VInt i \<Rightarrow> i \<noteq> 0 | VFloat x \<Rightarrow> x \<noteq> 0 | VStr s \<Rightarrow> s \<noteq> [] | VNone \<Rightarrow> False)"

text \<open>\<^verbatim>\<open>v // 100\<close>.\<close>

definition floordiv100 :: "pyval \<Rightarrow> error + pyval" where
  "floordiv100 v =
     (case v of VInt i \<Rightarrow> Inr (VInt (i div 100))
      | VFloat x \<Rightarrow> Inr (VFloat (of_int \<lfloor>x / 100\<rfloor>))
      | _ \<Rightarrow> Inl TypeError)"

text \<open>\<^verbatim>\<open>d[k]\<close> used as a number.\<close>

definition num_item :: "pydict \<Rightarrow> string \<Rightarrow> error + real" where
  "num_item d k = bind (getitem d k) as_num"

section \<open>Timestamps\<close>

text \<open>
  The standard library's \<^verbatim>\<open>datetime\<close>, as far as the program uses it. The model of
  \<^verbatim>\<open>fromisoformat\<close> follows the grammar that Python 3.7 to 3.10 document,
  \<^verbatim>\<open>YYYY-MM-DD[*HH[:MM[:SS[.fff[fff]]]][+HH:MM]]\<close> with any separator character \<^verbatim>\<open>*\<close>:
  a date alone, a time without minutes or seconds, and a fraction of three or six digits
  are read. The fraction is read and dropped: the program keeps the timestamp to the
  second and prints day, hour and minute. The time and the offset are split at the first
  sign of the time string. The offset is valid when it is less than 24 hours. An offset
  with seconds, and the further forms that Python 3.11 reads, are not modelled: there the
  model raises \<^verbatim>\<open>ValueError\<close>.
\<close>

record datetime =
  year :: nat
  month :: nat
  day :: nat
  hour :: nat
  minute :: nat
  second :: nat
  utcoffset :: "int option"

definition digit_val :: "char \<Rightarrow> nat option" where
  "digit_val c =
     map_of [(CHR ''0'', 0), (CHR ''1'', 1), (CHR ''2'', 2), (CHR ''3'', 3), (CHR ''4'', 4),
             (CHR ''5'', 5), (CHR ''6'', 6), (CHR ''7'', 7), (CHR ''8'', 8), (CHR ''9'', 9)] c"

fun parse_digits :: "string \<Rightarrow> nat \<Rightarrow> nat option" where
  "parse_digits [] acc = Some acc"
| "parse_digits (c # cs) acc =
     (case digit_val c of None \<Rightarrow> None | Some v \<Rightarrow> parse_digits cs (10 * acc + v))"

definition field :: "string \<Rightarrow> nat \<Rightarrow> nat \<Rightarrow> nat option" where
  "field s pos len = parse_digits (take len (drop pos s)) 0"

definition days_in_month :: "nat \<Rightarrow> nat \<Rightarrow> nat" where
  "days_in_month y m =
     (if m = 2 then (if y mod 4 = 0 \<and> (y mod 100 \<noteq> 0 \<or> y mod 400 = 0) then 29 else 28)
      else if m = 4 \<or> m = 6 \<or> m = 9 \<or> m = 11 then 30 else 31)"

definition split_offset :: "string \<Rightarrow> string \<times> (char \<times> string) option" where
  "split_offset t =
     (case dropWhile (\<lambda>c. c \<noteq> CHR ''+'' \<and> c \<noteq> CHR ''-'') t of
        [] \<Rightarrow> (t, None)
      | sign # z \<Rightarrow> (takeWhile (\<lambda>c. c \<noteq> CHR ''+'' \<and> c \<noteq> CHR ''-'') t, Some (sign, z)))"

definition parse_time :: "string \<Rightarrow> (nat \<times> nat \<times> nat) option" where
  "parse_time t =
     (let n = length t in
      if n = 2 then (case field t 0 2 of Some h \<Rightarrow> Some (h, 0, 0) | None \<Rightarrow> None)
      else if n = 5 \<and> t ! 2 = CHR '':''
      then (case (field t 0 2, field t 3 2) of
              (Some h, Some mi) \<Rightarrow> Some (h, mi, 0)
            | _ \<Rightarrow> None)
      else if (n = 8 \<or> n = 12 \<or> n = 15) \<and> t ! 2 = CHR '':'' \<and> t ! 5 = CHR '':'' \<and>
              (n = 8 \<or> t ! 8 = CHR ''.'')
      then (case (field t 0 2, field t 3 2, field t 6 2, field t 9 6) of
              (Some h, Some mi, Some sec, Some fraction) \<Rightarrow> Some (h, mi, sec)
            | _ \<Rightarrow> None)
      else None)"

definition parse_offset :: "(char \<times> string) option \<Rightarrow> int option option" where
  "parse_offset tz =
     (case tz of
        None \<Rightarrow> Some None
      | Some (sign, z) \<Rightarrow>
          if length z = 5 \<and> z ! 2 = CHR '':''
          then (case (field z 0 2, field z 3 2) of
                  (Some hh, Some mm) \<Rightarrow>
                    if hh * 60 + mm < 1440
                    then Some (Some ((if sign = CHR ''-'' then - 1 else 1) * int (hh * 60 + mm)))
                    else None
                | _ \<Rightarrow> None)
          else None)"

definition fromisoformat :: "string \<Rightarrow> error + datetime" where
  "fromisoformat s =
     (if length s < 10 \<or> s ! 4 \<noteq> CHR ''-'' \<or> s ! 7 \<noteq> CHR ''-'' then Inl ValueError
      else
        let tstr = drop 11 s;
            parts = split_offset tstr
        in case (field s 0 4, field s 5 2, field s 8 2,
                 if length s = 10 then Some (0, 0, 0) else parse_time (fst parts),
                 if length s = 10 then Some None else parse_offset (snd parts)) of
             (Some y, Some mo, Some d, Some (h, mi, sec), Some off) \<Rightarrow>
               if 1 \<le> y \<and> 1 \<le> mo \<and> mo \<le> 12 \<and> 1 \<le> d \<and> d \<le> days_in_month y mo \<and>
                  h < 24 \<and> mi < 60 \<and> sec < 60
               then Inr \<lparr>year = y, month = mo, day = d, hour = h, minute = mi, second = sec,
                         utcoffset = off\<rparr>
               else Inl ValueError
           | _ \<Rightarrow> Inl ValueError)"

text \<open>\<^verbatim>\<open>dt.isoformat(timespec="seconds")\<close>.\<close>

definition isoformat_seconds :: "datetime \<Rightarrow> string" where
  "isoformat_seconds dt =
     zfill (digits (year dt)) 4 @ ''-'' @ zfill (digits (month dt)) 2 @ ''-'' @
     zfill (digits (day dt)) 2 @ ''T'' @ zfill (digits (hour dt)) 2 @ '':'' @
     zfill (digits (minute dt)) 2 @ '':'' @ zfill (digits (second dt)) 2 @
     (case utcoffset dt of
        None \<Rightarrow> []
      | Some off \<Rightarrow>
          (if off < 0 then ''-'' else ''+'') @ zfill (digits (nat \<bar>off\<bar> div 60)) 2 @ '':'' @
          zfill (digits (nat \<bar>off\<bar> mod 60)) 2)"

text \<open>\<^verbatim>\<open>dt.strftime("%d%H%MZ")\<close>.\<close>

definition strftime_dHMZ :: "datetime \<Rightarrow> string" where
  "strftime_dHMZ dt =
     zfill (digits (day dt)) 2 @ zfill (digits (hour dt)) 2 @ zfill (digits (minute dt)) 2 @ ''Z''"

text \<open>\<^verbatim>\<open>s.replace("Z", "+00:00")\<close>: every occurrence is replaced.\<close>

definition replace_Z :: "string \<Rightarrow> string" where
  "replace_Z s = concat (map (\<lambda>c. if c = CHR ''Z'' then ''+00:00'' else [c]) s)"

section \<open>Domain-specific calculations\<close>

definition kt :: "real \<Rightarrow> real" where
  "kt ms = ms * 1.94384"

definition cloud_code :: "real \<Rightarrow> string" where
  "cloud_code cover =
     (if cover \<le> 0 then ''NCD''
      else if cover \<le> 10 then ''SKC''
      else if cover \<le> 25 then ''FEW''
      else if cover \<le> 50 then ''SCT''
      else if cover \<le> 90 then ''BKN''
      else ''OVC'')"

text \<open>\<^verbatim>\<open>math.radians\<close>.\<close>

definition radians :: "real \<Rightarrow> real" where
  "radians x = x * pi / 180"

definition runway_and_components :: "real \<Rightarrow> real \<Rightarrow> pydict" where
  "runway_and_components wdir wspd_ms =
     (let (rwy, offset) =
            (if 10 < wdir \<and> wdir < 190 then (10 :: int, wdir - 100)
             else (28, if wdir \<ge> 190 then wdir - 280 else wdir + 80));
          wspd = kt wspd_ms;
          av_rad = radians offset;
          hw = \<bar>py_round (cos av_rad * wspd)\<bar>;
          xw = \<bar>py_round (sin av_rad * wspd)\<bar>
      in [(''runway'', VStr (str_int rwy)),
          (''headwind_kt'', VInt hw),
          (''crosswind_kt'', VInt xw),
          (''crosswind_from'', VStr (if offset < 0 then ''left'' else ''right''))])"

section \<open>The report builder\<close>

text \<open>
  \<^verbatim>\<open>build_metar_dict\<close>. The arithmetic on a value of the flat mapping raises
  \<^verbatim>\<open>TypeError\<close> when the provider sent a string or a null there, and the first feature's
  timestamp is read with \<^verbatim>\<open>IndexError\<close> for an empty feature list.
\<close>

definition build_metar_dict :: "string \<Rightarrow> payload \<Rightarrow> error + pydict" where
  "build_metar_dict station_id raw =
     bind (latest_values raw) (\<lambda>vals.
     let name = (case map_of STATIONS station_id of Some n \<Rightarrow> n | None \<Rightarrow> station_id) in
     bind (case features raw of [] \<Rightarrow> Inl IndexError | f # _ \<Rightarrow> Inr (observed f)) (\<lambda>obs_time_iso.
     bind (fromisoformat (replace_Z obs_time_iso)) (\<lambda>obs_dt.
     let metar_bits =
           dict_update [(''station'', VStr name), (''observed'', VStr (isoformat_seconds obs_dt))] vals in
     bind (num_item vals ''wind_speed_ms'') (\<lambda>ws.
     let metar_bits = AList.update ''wind_speed_kt'' (VInt (py_round (kt ws))) metar_bits in
     bind (num_item vals ''wind_gust_ms'') (\<lambda>wg.
     let metar_bits = AList.update ''wind_gust_kt'' (VInt (py_round (kt wg))) metar_bits in
     bind (num_item vals ''cloud_cover_pct'') (\<lambda>cover.
     let metar_bits = AList.update ''cloud_code'' (VStr (cloud_code cover)) metar_bits in
     bind (num_item vals ''cloud_height_m'') (\<lambda>ch.
     let metar_bits =
           AList.update ''cloud_height_ft''
             (if ch > 15 then VInt (py_round (ch * 3.28084)) else VNone) metar_bits in
     bind (num_item vals ''wind_dir_deg'') (\<lambda>wdir.
     Inr (dict_update metar_bits (runway_and_components wdir ws))))))))))"

section \<open>The batch builder\<close>

text \<open>
  \<^verbatim>\<open>get_metar\<close>. The request to the provider, \<^verbatim>\<open>fetch_station\<close>, is a parameter: a
  function from the station id to the decoded payload or to the error the request
  raised. The loop carries the list \<open>out\<close> and the lines written to the error stream;
  both \<^verbatim>\<open>except\<close> clauses write a line and go on with the next station. The pause
  between two stations is not modelled.
\<close>

datatype log_line = LogHTTP string nat | LogDecode string error

fun get_metar_loop ::
  "(string \<Rightarrow> error + payload) \<Rightarrow> string list \<Rightarrow> pydict list \<Rightarrow> log_line list \<Rightarrow>
   pydict list \<times> log_line list" where
  "get_metar_loop fetch_station [] out err = (out, err)"
| "get_metar_loop fetch_station (sid # rest) out err =
     (case bind (fetch_station sid) (\<lambda>raw. build_metar_dict sid raw) of
        Inr bits \<Rightarrow> get_metar_loop fetch_station rest (out @ [bits]) err
      | Inl (HTTPError code) \<Rightarrow> get_metar_loop fetch_station rest out (err @ [LogHTTP sid code])
      | Inl exc \<Rightarrow> get_metar_loop fetch_station rest out (err @ [LogDecode sid exc]))"

definition get_metar ::
  "(string \<Rightarrow> error + payload) \<Rightarrow> string list \<Rightarrow> pydict list \<times> log_line list" where
  "get_metar fetch_station station_ids =
     get_metar_loop fetch_station (if station_ids = [] then map fst STATIONS else station_ids) [] []"

section \<open>The formatter\<close>

text \<open>
  \<^verbatim>\<open>metar_string\<close>. Each local variable of the function is a definition of its own, in
  the order the function computes them; \<open>metar_string\<close> puts them into the four lines.
  The debugging \<^verbatim>\<open>print(gust)\<close> is not modelled.
\<close>

definition metar_ts :: "pydict \<Rightarrow> error + string" where
  "metar_ts d =
     bind (getitem d ''observed'') (\<lambda>obs.
       case obs of
         VStr s \<Rightarrow> bind (fromisoformat s) (\<lambda>dt. Inr (strftime_dHMZ dt))
       | _ \<Rightarrow> Inl TypeError)"

definition metar_wdir :: "pydict \<Rightarrow> error + int" where
  "metar_wdir d = bind (num_item d ''wind_dir_deg'') (\<lambda>x. Inr (py_round (x / 10) * 10))"

definition metar_wspd :: "(real \<Rightarrow> string) \<Rightarrow> pydict \<Rightarrow> error + string" where
  "metar_wspd float_str d =
     bind (getitem d ''wind_speed_kt'') (\<lambda>v. Inr (zfill (py_str float_str v) 2))"

definition metar_gust :: "(real \<Rightarrow> string) \<Rightarrow> pydict \<Rightarrow> error + string" where
  "metar_gust float_str d =
     bind (num_item d ''wind_gust_kt'') (\<lambda>g.
     bind (num_item d ''wind_speed_kt'') (\<lambda>s.
       if g - s > 10
       then bind (getitem d ''wind_gust_kt'') (\<lambda>v. Inr (''G'' @ zfill (py_str float_str v) 2))
       else Inr []))"

definition metar_clouds :: "(real \<Rightarrow> string) \<Rightarrow> pydict \<Rightarrow> error + pyval" where
  "metar_clouds float_str d =
     bind (getitem d ''cloud_code'') (\<lambda>clouds.
       if clouds \<noteq> VStr ''SKC''
       then bind (getitem d ''cloud_height_ft'') (\<lambda>h.
              if truthy h
              then bind (floordiv100 h) (\<lambda>q.
                     case clouds of
                       VStr c \<Rightarrow> Inr (VStr (c @ zfill (py_str float_str q) 3))
                     | _ \<Rightarrow> Inl TypeError)
              else Inr clouds)
       else Inr clouds)"

definition metar_vis :: "pydict \<Rightarrow> error + string" where
  "metar_vis d =
     bind (num_item d ''visibility_m'') (\<lambda>v.
       Inr (if v > 9999 then ''9999''
            else if v < 100 then ''0000''
            else zfill (str_int \<lfloor>v / 100\<rfloor>) 2 @ ''00''))"

definition metar_temp_dew :: "pydict \<Rightarrow> error + string" where
  "metar_temp_dew d =
     bind (num_item d ''temp_dry_c'') (\<lambda>dry.
     bind (num_item d ''temp_dew_c'') (\<lambda>dew.
       Inr (str_int (py_round dry) @ ''/'' @ str_int (py_round dew))))"

definition metar_qnh :: "pydict \<Rightarrow> error + string" where
  "metar_qnh d = bind (num_item d ''qnh_hpa'') (\<lambda>q. Inr (''Q'' @ str_int (py_round q)))"

definition metar_rwy :: "(real \<Rightarrow> string) \<Rightarrow> pydict \<Rightarrow> error + string" where
  "metar_rwy float_str d =
     bind (getitem d ''runway'') (\<lambda>r.
     bind (getitem d ''headwind_kt'') (\<lambda>hw.
     bind (getitem d ''crosswind_from'') (\<lambda>side.
     bind (getitem d ''crosswind_kt'') (\<lambda>xw.
       Inr (''R'' @ py_str float_str r @ '' HW'' @ zfill (py_str float_str hw) 2 @ '' XW'' @
            (if side = VStr ''right'' then larrow else rarrow) @
            zfill (py_str float_str xw) 2)))))"

definition metar_string :: "(real \<Rightarrow> string) \<Rightarrow> pydict \<Rightarrow> error + string" where
  "metar_string float_str d =
     bind (metar_ts d) (\<lambda>ts.
     bind (metar_wdir d) (\<lambda>wdir.
     bind (metar_wspd float_str d) (\<lambda>wspd.
     bind (metar_gust float_str d) (\<lambda>gust.
     bind (metar_clouds float_str d) (\<lambda>clouds.
     bind (metar_vis d) (\<lambda>vis.
     bind (metar_temp_dew d) (\<lambda>temp_dew.
     bind (metar_qnh d) (\<lambda>qnh.
     bind (metar_rwy float_str d) (\<lambda>rwy.
     bind (getitem d ''station'') (\<lambda>station.
       Inr (py_str float_str station @ '' METAR '' @ ts @ '' '' @ NL @
            zfill (str_int wdir) 3 @ wspd @ (if gust \<noteq> [] then ''G'' else []) @ gust @ ''KT '' @ NL @
            vis @ '' '' @ py_str float_str clouds @ '' '' @ qnh @ '' '' @ temp_dew @ '' '' @ NL @
            '' '' @ rwy @ NL)))))))))))"

section \<open>Auxiliary definitions for the properties\<close>

text \<open>
  The value the extractor's loop leaves in the field of parameter \<open>pid\<close>, when the field
  holds \<open>cur\<close> before the features \<open>fs\<close> are read: each occurrence of \<open>pid\<close> is stored
  as long as the field compares equal to \<open>-1\<close>.
\<close>

fun pick :: "string \<Rightarrow> pyval \<Rightarrow> feature list \<Rightarrow> pyval" where
  "pick pid cur [] = cur"
| "pick pid cur (f # fs) =
     (if eq_minus1 cur \<and> parameterId f = pid then pick pid (value_f f) fs else pick pid cur fs)"

text \<open>
  What one station contributes to the batch: its record, or nothing when the request or
  the builder raised.
\<close>

definition station_records :: "(string \<Rightarrow> error + payload) \<Rightarrow> string \<Rightarrow> pydict list" where
  "station_records fetch_station sid =
     (case bind (fetch_station sid) (build_metar_dict sid) of Inr bits \<Rightarrow> [bits] | Inl exc \<Rightarrow> [])"

definition station_log :: "(string \<Rightarrow> error + payload) \<Rightarrow> string \<Rightarrow> log_line list" where
  "station_log fetch_station sid =
     (case bind (fetch_station sid) (build_metar_dict sid) of
        Inr bits \<Rightarrow> []
      | Inl (HTTPError code) \<Rightarrow> [LogHTTP sid code]
      | Inl exc \<Rightarrow> [LogDecode sid exc])"

text \<open>
  The angular offset that \<open>runway_and_components\<close> computes from the wind direction.
\<close>

definition runway_offset :: "real \<Rightarrow> real" where
  "runway_offset wdir =
     (if 10 < wdir \<and> wdir < 190 then wdir - 100 else if wdir \<ge> 190 then wdir - 280 else wdir + 80)"

text \<open>
  No closed example below formats a float with \<^verbatim>\<open>str\<close>; there the parameter of the
  formatter is a function that prints nothing.
\<close>

definition no_float_str :: "real \<Rightarrow> string" where
  "no_float_str x = []"

subsection \<open>Example inputs\<close>

definition ex_feature :: "string \<Rightarrow> pyval \<Rightarrow> feature" where
  "ex_feature pid v = \<lparr>parameterId = pid, value_f = v, observed = ''2024-01-16T12:50:00Z''\<rparr>"

text \<open>The payload of the end-to-end example.\<close>

definition ex_end_to_end :: payload where
  "ex_end_to_end =
     \<lparr>features =
        [ex_feature ''wind_dir'' (VInt 140), ex_feature ''wind_speed'' (VInt 5),
         ex_feature ''cloud_cover'' (VInt 30), ex_feature ''cloud_height'' (VInt 20),
         ex_feature ''visib_mean_last10min'' (VInt 12000),
         ex_feature ''pressure_at_sea'' (VInt 1008), ex_feature ''temp_dry'' (VInt 6),
         ex_feature ''temp_dew'' (VInt 4)]\<rparr>"

text \<open>The same payload with a maximum wind of 13 m/s, 25 knots, in front.\<close>

definition ex_gusty :: payload where
  "ex_gusty = \<lparr>features = ex_feature ''wind_max'' (VInt 13) # features ex_end_to_end\<rparr>"

text \<open>
  The record of station 06156 in the examples, with the maximum wind in m/s and the wind
  speed and gust in knots left open.
\<close>

definition ex_record :: "int \<Rightarrow> int \<Rightarrow> int \<Rightarrow> pydict" where
  "ex_record gust_ms speed gust =
     [(''station'', VStr ''EKHK''), (''observed'', VStr ''2024-01-16T12:50:00+00:00''),
      (''temp_dew_c'', VInt 4), (''temp_dry_c'', VInt 6), (''visibility_m'', VInt 12000),
      (''qnh_hpa'', VInt 1008), (''wind_dir_deg'', VInt 140), (''wind_speed_ms'', VInt 5),
      (''wind_gust_ms'', VInt gust_ms), (''cloud_cover_pct'', VInt 30), (''cloud_height_m'', VInt 20),
      (''wind_speed_kt'', VInt speed), (''wind_gust_kt'', VInt gust), (''cloud_code'', VStr ''SCT''),
      (''cloud_height_ft'', VInt 66), (''runway'', VStr ''10''), (''headwind_kt'', VInt 7),
      (''crosswind_kt'', VInt 6), (''crosswind_from'', VStr ''right'')]"

text \<open>Two observations of the wind direction, the newer one equal to the sentinel.\<close>

definition ex_sentinel_first :: payload where
  "ex_sentinel_first =
     \<lparr>features = [ex_feature ''wind_dir'' (VInt (- 1)), ex_feature ''wind_dir'' (VInt 140)]\<rparr>"

text \<open>
  Two observations of the dry temperature, the newer one of \<open>-1.0\<close> degrees and the
  older one of \<open>-0.5\<close> degrees.
\<close>

definition ex_frost :: payload where
  "ex_frost =
     \<lparr>features = [ex_feature ''temp_dry'' (VFloat (- 1)), ex_feature ''temp_dry'' (VFloat (- (1 / 2)))]\<rparr>"

text \<open>Two observations of the wind direction with different values, neither the sentinel.\<close>

definition ex_two_values :: payload where
  "ex_two_values =
     \<lparr>features = [ex_feature ''wind_dir'' (VInt 140), ex_feature ''wind_dir'' (VInt 150)]\<rparr>"

text \<open>A payload without wind: speed and maximum are zero.\<close>

definition ex_calm :: payload where
  "ex_calm =
     \<lparr>features =
        [ex_feature ''wind_dir'' (VInt 0), ex_feature ''wind_speed'' (VInt 0),
         ex_feature ''wind_max'' (VInt 0)]\<rparr>"

text \<open>
  A provider that answers for station 06156, refuses station 06170 with status 500 and
  sends an empty feature list for any other station.
\<close>

definition ex_fetch :: "string \<Rightarrow> error + payload" where
  "ex_fetch sid =
     (if sid = ''06156'' then Inr ex_end_to_end
      else if sid = ''06170'' then Inl (HTTPError 500)
      else Inr \<lparr>features = []\<rparr>)"

section \<open>Properties of the value extractor\<close>

subsection \<open>The table of tracked parameters\<close>

lemma PARAMS_distinct_fst: "distinct (map fst PARAMS)"
  by (simp add: PARAMS_def)

lemma PARAMS_distinct_snd: "distinct (map snd PARAMS)"
  by (simp add: PARAMS_def)

lemma PARAMS_alias_nonempty: "(pid, alias) \<in> set PARAMS \<Longrightarrow> alias \<noteq> []"
  by (auto simp: PARAMS_def)

lemma PARAMS_map_of: "map_of PARAMS pid = Some alias \<longleftrightarrow> (pid, alias) \<in> set PARAMS"
  using PARAMS_distinct_fst by (metis map_of_SomeD map_of_is_SomeI)

lemma PARAMS_alias_inj:
  "(pid, alias) \<in> set PARAMS \<Longrightarrow> (pid', alias) \<in> set PARAMS \<Longrightarrow> pid = pid'"
  using PARAMS_distinct_snd
  by (metis (no_types, opaque_lifting) distinct_map fst_conv inj_onD snd_conv)

subsection \<open>The value a field ends with\<close>

lemma pick_set: "\<not> eq_minus1 cur \<Longrightarrow> pick pid cur fs = cur"
  by (induction fs) auto

lemma pick_char:
  "eq_minus1 cur \<Longrightarrow>
   pick pid cur fs =
     (let occ = filter (\<lambda>f. parameterId f = pid) fs
      in case find (\<lambda>f. \<not> eq_minus1 (value_f f)) occ of
           Some g \<Rightarrow> value_f g
         | None \<Rightarrow> if occ = [] then cur else value_f (last occ))"
proof (induction fs arbitrary: cur)
  case Nil
  then show ?case by simp
next
  case (Cons f fs)
  show ?case
  proof (cases "parameterId f = pid")
    case False
    with Cons show ?thesis by simp
  next
    case True
    show ?thesis
    proof (cases "eq_minus1 (value_f f)")
      case False
      with True Cons.prems show ?thesis by (simp add: pick_set)
    next
      case m1: True
      from Cons.IH [OF m1] True Cons.prems m1 show ?thesis
        by (auto simp: Let_def split: option.splits)
    qed
  qed
qed

lemma not_sentinel_of_all:
  "list_all (\<lambda>v. \<not> eq_minus1 v) (map snd d) \<Longrightarrow> map_of d k = Some v \<Longrightarrow> \<not> eq_minus1 v"
  by (auto simp: list_all_iff dest!: map_of_SomeD)

lemma getitem_present: "k \<in> set (map fst d) \<Longrightarrow> \<exists>v. map_of d k = Some v \<and> getitem d k = Inr v"
  by (cases "map_of d k") (auto simp: getitem_def map_of_eq_None_iff)

subsection \<open>The loop\<close>

text \<open>
  The loop keeps the keys of the dictionary, never raises \<^verbatim>\<open>KeyError\<close>, and leaves in
  each field the value that \<open>pick\<close> describes.
\<close>

lemma latest_loop_pick:
  assumes "map fst result = map snd PARAMS"
  shows "\<exists>r. latest_loop fs result = Inr r \<and> map fst r = map snd PARAMS \<and>
           (\<forall>pid alias cur. (pid, alias) \<in> set PARAMS \<longrightarrow> map_of result alias = Some cur \<longrightarrow>
              map_of r alias = Some (pick pid cur fs))"
  using assms
proof (induction fs arbitrary: result)
  case Nil
  then show ?case by simp
next
  case (Cons feat rest)
  note keys = Cons.prems
  show ?case
  proof (cases "map_of PARAMS (parameterId feat)")
    case None
    have ne: "\<And>pid alias. (pid, alias) \<in> set PARAMS \<Longrightarrow> parameterId feat \<noteq> pid"
      using None by (auto simp: map_of_eq_None_iff image_iff)
    from Cons.IH [OF keys] obtain r where r: "latest_loop rest result = Inr r"
      "map fst r = map snd PARAMS"
      "\<forall>pid alias cur. (pid, alias) \<in> set PARAMS \<longrightarrow> map_of result alias = Some cur \<longrightarrow>
              map_of r alias = Some (pick pid cur rest)" by blast
    show ?thesis using None r ne by auto
  next
    case (Some a)
    then have a_in: "(parameterId feat, a) \<in> set PARAMS" by (simp add: PARAMS_map_of)
    then have a_ne: "a \<noteq> []" by (rule PARAMS_alias_nonempty)
    have "a \<in> set (map fst result)" using a_in keys by force
    from getitem_present [OF this] obtain c where c: "map_of result a = Some c" "getitem result a = Inr c"
      by blast
    have pid_other: "parameterId feat \<noteq> pid" if "(pid, al) \<in> set PARAMS" "al \<noteq> a" for pid al
      using that a_in Some by (auto simp: PARAMS_map_of [symmetric])
    have pid_same: "parameterId feat = pid" if "(pid, a) \<in> set PARAMS" for pid
      using that a_in by (rule PARAMS_alias_inj [THEN sym])
    show ?thesis
    proof (cases "eq_minus1 c")
      case False
      from Cons.IH [OF keys] obtain r where r: "latest_loop rest result = Inr r"
        "map fst r = map snd PARAMS"
        "\<forall>pid alias cur. (pid, alias) \<in> set PARAMS \<longrightarrow> map_of result alias = Some cur \<longrightarrow>
              map_of r alias = Some (pick pid cur rest)" by blast
      have "map_of r al = Some (pick pid cur (feat # rest))"
        if "(pid, al) \<in> set PARAMS" "map_of result al = Some cur" for pid al cur
      proof (cases "al = a")
        case True
        with that c False r(3) show ?thesis by auto
      next
        case neq: False
        with that pid_other r(3) show ?thesis by auto
      qed
      then show ?thesis using Some a_ne c False r by (auto simp: bind_def)
    next
      case m1: True
      define result' where "result' = AList.update a (value_f feat) result"
      have keys': "map fst result' = map snd PARAMS"
        using keys \<open>a \<in> set (map fst result)\<close> by (simp add: result'_def update_keys)
      have look: "map_of result' al = (if al = a then Some (value_f feat) else map_of result al)" for al
        by (simp add: result'_def update_conv')
      show ?thesis
      proof (cases "list_all (\<lambda>v. \<not> eq_minus1 v) (map snd result')")
        case True
        have "map_of result' al = Some (pick pid cur (feat # rest))"
          if "(pid, al) \<in> set PARAMS" "map_of result al = Some cur" for pid al cur
        proof (cases "al = a")
          case eq: True
          have "\<not> eq_minus1 (value_f feat)"
            using not_sentinel_of_all [OF True, of a "value_f feat"] look by simp
          with eq that c m1 pid_same look show ?thesis by (auto simp: pick_set)
        next
          case neq: False
          have "\<not> eq_minus1 cur"
            using not_sentinel_of_all [OF True, of al cur] look neq that by simp
          with neq that pid_other look show ?thesis by (auto simp: pick_set)
        qed
        then show ?thesis using Some a_ne c m1 True keys'
          by (auto simp: bind_def result'_def Let_def)
      next
        case False
        from Cons.IH [OF keys'] obtain r where r: "latest_loop rest result' = Inr r"
          "map fst r = map snd PARAMS"
          "\<forall>pid alias cur. (pid, alias) \<in> set PARAMS \<longrightarrow> map_of result' alias = Some cur \<longrightarrow>
              map_of r alias = Some (pick pid cur rest)" by blast
        have "map_of r al = Some (pick pid cur (feat # rest))"
          if "(pid, al) \<in> set PARAMS" "map_of result al = Some cur" for pid al cur
        proof (cases "al = a")
          case eq: True
          with that c m1 pid_same look r(3) show ?thesis by auto
        next
          case neq: False
          with that pid_other look r(3) show ?thesis by auto
        qed
        then show ?thesis using Some a_ne c m1 False r
          by (auto simp: bind_def result'_def Let_def)
      qed
    qed
  qed
qed

lemma latest_loop_continues:
  "latest_loop fs result = Inr r' \<Longrightarrow> \<not> list_all (\<lambda>v. \<not> eq_minus1 v) (map snd r') \<Longrightarrow>
   latest_loop (fs @ gs) result = latest_loop gs r'"
proof (induction fs arbitrary: result)
  case Nil
  then show ?case by simp
next
  case (Cons feat rest)
  then show ?case
    by (auto simp: bind_def Let_def split: option.splits sum.splits if_splits)
qed

lemma initial_keys:
  "map fst (map (\<lambda>al. (al, VInt (- 1))) (map snd PARAMS)) = map snd PARAMS"
  by (simp add: comp_def)

lemma initial_lookup:
  "(pid, al) \<in> set PARAMS \<Longrightarrow>
   map_of (map (\<lambda>al. (al, VInt (- 1))) (map snd PARAMS)) al = Some (VInt (- 1))"
  by (rule map_of_is_SomeI) (auto simp: comp_def PARAMS_distinct_snd intro!: image_eqI)

lemma latest_values_pick:
  "\<exists>r. latest_values p = Inr r \<and> map fst r = map snd PARAMS \<and>
       (\<forall>pid al. (pid, al) \<in> set PARAMS \<longrightarrow> map_of r al = Some (pick pid (VInt (- 1)) (features p)))"
proof -
  from latest_loop_pick [OF initial_keys, of "features p"]
  obtain r where r: "latest_loop (features p) (map (\<lambda>al. (al, VInt (- 1))) (map snd PARAMS)) = Inr r"
    "map fst r = map snd PARAMS"
    "\<forall>pid al cur. (pid, al) \<in> set PARAMS \<longrightarrow>
       map_of (map (\<lambda>al. (al, VInt (- 1))) (map snd PARAMS)) al = Some cur \<longrightarrow>
       map_of r al = Some (pick pid cur (features p))" by blast
  show ?thesis using r initial_lookup by (auto simp: latest_values_def)
qed

lemma latest_values_keys: "latest_values p = Inr vals \<Longrightarrow> map fst vals = map snd PARAMS"
  using latest_values_pick [of p] by auto

lemma find_filter_first:
  "find P xs = (case filter P xs of [] \<Rightarrow> None | x # _ \<Rightarrow> Some x)"
  by (induction xs) auto

lemmas extractor_eval =
  latest_values_def ex_sentinel_first_def ex_two_values_def ex_feature_def PARAMS_def bind_def
  getitem_def eq_minus1_def

text \<open>
  What holds of every payload: the extractor returns a dictionary, without raising, whose
  keys are the internal names of the tracked parameters, one entry for each. A parameter
  that no feature carries is left at the integer \<open>-1\<close>. When the first feature that
  carries a parameter has a value that does not compare equal to \<open>-1\<close>, that value is
  the one in the result, whatever later features say.
\<close>

lemma first_value_other_than_sentinel_kept:
  "\<exists>r. latest_values p = Inr r \<and> map fst r = map snd PARAMS \<and> distinct (map fst r) \<and>
       (\<forall>(pid, al) \<in> set PARAMS.
          case find (\<lambda>f. parameterId f = pid) (features p) of
            None \<Rightarrow> map_of r al = Some (VInt (- 1))
          | Some f \<Rightarrow> \<not> eq_minus1 (value_f f) \<longrightarrow> map_of r al = Some (value_f f))"
proof -
  from latest_values_pick [of p] obtain r where r: "latest_values p = Inr r"
    "map fst r = map snd PARAMS"
    "\<forall>pid al. (pid, al) \<in> set PARAMS \<longrightarrow> map_of r al = Some (pick pid (VInt (- 1)) (features p))"
    by blast
  have m1: "eq_minus1 (VInt (- 1))" by (simp add: eq_minus1_def)
  have "case find (\<lambda>f. parameterId f = pid) (features p) of
            None \<Rightarrow> map_of r al = Some (VInt (- 1))
          | Some f \<Rightarrow> \<not> eq_minus1 (value_f f) \<longrightarrow> map_of r al = Some (value_f f)"
    if "(pid, al) \<in> set PARAMS" for pid al
  proof -
    have look: "map_of r al = Some (pick pid (VInt (- 1)) (features p))" using r(3) that by blast
    show ?thesis
    proof (cases "filter (\<lambda>f. parameterId f = pid) (features p)")
      case Nil
      then show ?thesis using look by (simp add: pick_char [OF m1] find_filter_first)
    next
      case (Cons f occ)
      then show ?thesis using look by (simp add: pick_char [OF m1] find_filter_first)
    qed
  qed
  then show ?thesis using r(1,2) PARAMS_distinct_snd by auto
qed

text \<open>
  Claim C2, at an input where the code departs from it. The payload \<open>ex_frost\<close> carries
  the dry temperature twice, \<open>-1.0\<close> first and \<open>-0.5\<close> after it: the result has one
  entry for each tracked parameter, and the dry temperature in it is \<open>-0.5\<close>, the second
  occurrence. At \<open>ex_two_values\<close>, where the first occurrence is 140 and the second 150,
  the first is kept.
\<close>

theorem first_occurrence_lost_at_minus_one:
  "map parameterId (features ex_frost) = [''temp_dry'', ''temp_dry''] \<and>
   map value_f (features ex_frost) = [VFloat (- 1), VFloat (- (1 / 2))] \<and>
   map_of PARAMS ''temp_dry'' = Some ''temp_dry_c'' \<and>
   latest_values ex_frost =
     Inr [(''temp_dew_c'', VInt (- 1)), (''temp_dry_c'', VFloat (- (1 / 2))),
          (''visibility_m'', VInt (- 1)), (''qnh_hpa'', VInt (- 1)), (''wind_dir_deg'', VInt (- 1)),
          (''wind_speed_ms'', VInt (- 1)), (''wind_gust_ms'', VInt (- 1)),
          (''cloud_cover_pct'', VInt (- 1)), (''cloud_height_m'', VInt (- 1))] \<and>
   latest_values ex_two_values =
     Inr [(''temp_dew_c'', VInt (- 1)), (''temp_dry_c'', VInt (- 1)), (''visibility_m'', VInt (- 1)),
          (''qnh_hpa'', VInt (- 1)), (''wind_dir_deg'', VInt 140), (''wind_speed_ms'', VInt (- 1)),
          (''wind_gust_ms'', VInt (- 1)), (''cloud_cover_pct'', VInt (- 1)),
          (''cloud_height_m'', VInt (- 1))]"
  by (simp add: extractor_eval ex_frost_def)

text \<open>
  Claim C10. A value equal to \<open>-1\<close> is treated as a field not yet set. When the first
  feature that carries a tracked parameter has a value equal to \<open>-1\<close> and later features
  carry the parameter too, the result does not hold the first occurrence: it holds the
  first later occurrence whose value differs from \<open>-1\<close>, or the last occurrence when
  every one equals \<open>-1\<close>. And the loop does not leave early while a field equals \<open>-1\<close>:
  when the dictionary reached after the features \<open>fs\<close> still has such a field, the loop
  goes on with the features that follow.
\<close>

theorem sentinel_value_overwritten:
  "((pid, al) \<in> set PARAMS \<and>
    filter (\<lambda>f. parameterId f = pid) (features p) = f1 # later \<and>
    eq_minus1 (value_f f1) \<and> later \<noteq> [] \<longrightarrow>
    (\<exists>r. latest_values p = Inr r \<and>
         map_of r al =
           Some (value_f (case find (\<lambda>f. \<not> eq_minus1 (value_f f)) later of
                            Some g \<Rightarrow> g | None \<Rightarrow> last later)))) \<and>
   (latest_loop fs result = Inr r' \<and> \<not> list_all (\<lambda>v. \<not> eq_minus1 v) (map snd r') \<longrightarrow>
    latest_loop (fs @ gs) result = latest_loop gs r')"
proof (intro conjI impI)
  assume h: "(pid, al) \<in> set PARAMS \<and>
    filter (\<lambda>f. parameterId f = pid) (features p) = f1 # later \<and>
    eq_minus1 (value_f f1) \<and> later \<noteq> []"
  from latest_values_pick [of p] obtain r where r: "latest_values p = Inr r"
    "\<forall>pid al. (pid, al) \<in> set PARAMS \<longrightarrow> map_of r al = Some (pick pid (VInt (- 1)) (features p))"
    by blast
  have m1: "eq_minus1 (VInt (- 1))" by (simp add: eq_minus1_def)
  have "pick pid (VInt (- 1)) (features p) =
        value_f (case find (\<lambda>f. \<not> eq_minus1 (value_f f)) later of Some g \<Rightarrow> g | None \<Rightarrow> last later)"
    using h by (simp add: pick_char [OF m1] split: option.splits)
  then show "\<exists>r. latest_values p = Inr r \<and>
         map_of r al =
           Some (value_f (case find (\<lambda>f. \<not> eq_minus1 (value_f f)) later of
                            Some g \<Rightarrow> g | None \<Rightarrow> last later))"
    using r h by auto
next
  assume "latest_loop fs result = Inr r' \<and> \<not> list_all (\<lambda>v. \<not> eq_minus1 v) (map snd r')"
  then show "latest_loop (fs @ gs) result = latest_loop gs r'"
    by (simp add: latest_loop_continues)
qed

text \<open>
  The theorem at the payload \<open>ex_sentinel_first\<close>: the observation 140 replaces the
  observation \<open>-1\<close> that came first, and after the first feature the loop is still
  running.
\<close>

theorem sentinel_value_overwritten_witness:
  "(''wind_dir'', ''wind_dir_deg'') \<in> set PARAMS \<and>
   features ex_sentinel_first = [ex_feature ''wind_dir'' (VInt (- 1)), ex_feature ''wind_dir'' (VInt 140)] \<and>
   eq_minus1 (value_f (ex_feature ''wind_dir'' (VInt (- 1)))) \<and>
   (\<exists>r. latest_values ex_sentinel_first = Inr r \<and> map_of r ''wind_dir_deg'' = Some (VInt 140)) \<and>
   latest_loop [ex_feature ''wind_dir'' (VInt (- 1))] [(''wind_dir_deg'', VInt (- 1)), (''qnh_hpa'', VInt 1008)] =
     Inr [(''wind_dir_deg'', VInt (- 1)), (''qnh_hpa'', VInt 1008)] \<and>
   latest_loop ([ex_feature ''wind_dir'' (VInt (- 1))] @ [ex_feature ''wind_dir'' (VInt 140)])
       [(''wind_dir_deg'', VInt (- 1)), (''qnh_hpa'', VInt 1008)] =
     latest_loop [ex_feature ''wind_dir'' (VInt 140)] [(''wind_dir_deg'', VInt (- 1)), (''qnh_hpa'', VInt 1008)]"
proof -
  have a: "(''wind_dir'', ''wind_dir_deg'') \<in> set PARAMS" by (simp add: PARAMS_def)
  have b: "features ex_sentinel_first =
             [ex_feature ''wind_dir'' (VInt (- 1)), ex_feature ''wind_dir'' (VInt 140)]"
    by (simp add: ex_sentinel_first_def)
  have c: "filter (\<lambda>f. parameterId f = ''wind_dir'') (features ex_sentinel_first) =
             ex_feature ''wind_dir'' (VInt (- 1)) # [ex_feature ''wind_dir'' (VInt 140)]"
    by (simp add: ex_sentinel_first_def ex_feature_def)
  have d: "eq_minus1 (value_f (ex_feature ''wind_dir'' (VInt (- 1))))"
    "\<not> eq_minus1 (value_f (ex_feature ''wind_dir'' (VInt 140)))"
    "value_f (ex_feature ''wind_dir'' (VInt 140)) = VInt 140"
    by (simp_all add: eq_minus1_def ex_feature_def)
  have e: "latest_loop [ex_feature ''wind_dir'' (VInt (- 1))]
             [(''wind_dir_deg'', VInt (- 1)), (''qnh_hpa'', VInt 1008)] =
           Inr [(''wind_dir_deg'', VInt (- 1)), (''qnh_hpa'', VInt 1008)]"
    by (simp add: extractor_eval)
  have f: "\<not> list_all (\<lambda>v. \<not> eq_minus1 v) (map snd [(''wind_dir_deg'', VInt (- 1)), (''qnh_hpa'', VInt 1008)])"
    by (simp add: eq_minus1_def)
  note inst = sentinel_value_overwritten
    [of "''wind_dir''" "''wind_dir_deg''" ex_sentinel_first "ex_feature ''wind_dir'' (VInt (- 1))"
        "[ex_feature ''wind_dir'' (VInt 140)]" "[ex_feature ''wind_dir'' (VInt (- 1))]"
        "[(''wind_dir_deg'', VInt (- 1)), (''qnh_hpa'', VInt 1008)]"
        "[(''wind_dir_deg'', VInt (- 1)), (''qnh_hpa'', VInt 1008)]"
        "[ex_feature ''wind_dir'' (VInt 140)]"]
  from inst a c d have g: "\<exists>r. latest_values ex_sentinel_first = Inr r \<and>
      map_of r ''wind_dir_deg'' = Some (VInt 140)" by simp
  from inst e f have h: "latest_loop ([ex_feature ''wind_dir'' (VInt (- 1))] @ [ex_feature ''wind_dir'' (VInt 140)])
       [(''wind_dir_deg'', VInt (- 1)), (''qnh_hpa'', VInt 1008)] =
     latest_loop [ex_feature ''wind_dir'' (VInt 140)] [(''wind_dir_deg'', VInt (- 1)), (''qnh_hpa'', VInt 1008)]"
    by blast
  show ?thesis using a b d(1) g e h by blast
qed

section \<open>Rounding and the wind components of the example\<close>

lemma py_round_eqI:
  assumes "real_of_int n - 1 / 2 < x" "x < real_of_int n + 1 / 2"
  shows "py_round x = n"
proof (cases "real_of_int n \<le> x")
  case True
  then have "\<lfloor>x\<rfloor> = n" using assms by linarith
  then show ?thesis using assms by (simp add: py_round_def Let_def)
next
  case False
  then have "\<lfloor>x\<rfloor> = n - 1" using assms by linarith
  then show ?thesis using assms False by (simp add: py_round_def Let_def)
qed

lemma cos_40_cubic: "8 * cos (2 * pi / 9) ^ 3 - 6 * cos (2 * pi / 9) + 1 = 0"
proof -
  have "cos (3 * (2 * pi / 9)) = 4 * cos (2 * pi / 9) ^ 3 - 3 * cos (2 * pi / 9)"
    by (rule cos_treble_cos)
  moreover have "3 * (2 * pi / 9) = 2 * pi / 3" by simp
  ultimately have "4 * cos (2 * pi / 9) ^ 3 - 3 * cos (2 * pi / 9) = - 1 / 2"
    using cos_120 by simp
  then show ?thesis by simp
qed

lemma cos_40_gt_half: "1 / 2 < cos (2 * pi / 9)"
proof -
  have "cos (pi / 3) < cos (2 * pi / 9)"
    by (rule cos_monotone_0_pi) (use pi_gt_zero in auto)
  then show ?thesis by (simp add: cos_60)
qed

lemma cubic_diff:
  "(8 * x ^ 3 - 6 * x + 1) - (8 * y ^ 3 - 6 * y + 1) = (x - y) * (8 * (x\<^sup>2 + x * y + y\<^sup>2) - 6)"
  for x y :: real
  by (simp add: algebra_simps power3_eq_cube power2_eq_square)

lemma cos_40_bounds: "7435 / 10000 < cos (2 * pi / 9)" "cos (2 * pi / 9) < 7716 / 10000"
proof -
  define c where "c = cos (2 * pi / 9)"
  have p: "8 * c ^ 3 - 6 * c + 1 = 0" unfolding c_def by (rule cos_40_cubic)
  have half: "1 / 2 < c" unfolding c_def by (rule cos_40_gt_half)
  show "7435 / 10000 < cos (2 * pi / 9)"
  proof (rule ccontr)
    assume "\<not> 7435 / 10000 < cos (2 * pi / 9)"
    then have le: "c \<le> 7435 / 10000" by (simp add: c_def)
    define b :: real where "b = 7435 / 10000"
    have "c\<^sup>2 > (1 / 2)\<^sup>2" using half by (intro power_strict_mono) auto
    moreover have "b * c > 0" "b\<^sup>2 > 0" using half by (auto simp: b_def)
    ultimately have "8 * (b\<^sup>2 + b * c + c\<^sup>2) - 6 \<ge> 0"
      using half le by (simp add: b_def power2_eq_square) 
    then have "(b - c) * (8 * (b\<^sup>2 + b * c + c\<^sup>2) - 6) \<ge> 0"
      using le by (intro mult_nonneg_nonneg) (auto simp: b_def)
    then have "8 * b ^ 3 - 6 * b + 1 \<ge> 0" using cubic_diff [of b c] p by simp
    then show False by (simp add: b_def power3_eq_cube)
  qed
  show "cos (2 * pi / 9) < 7716 / 10000"
  proof (rule ccontr)
    assume "\<not> cos (2 * pi / 9) < 7716 / 10000"
    then have ge: "7716 / 10000 \<le> c" by (simp add: c_def)
    define a :: real where "a = 7716 / 10000"
    have a: "a \<le> c" "0 < a" using ge by (auto simp: a_def)
    have "a\<^sup>2 \<le> c\<^sup>2" using a by (intro power_mono) auto
    moreover have "a * a \<le> c * a" using a by (intro mult_right_mono) auto
    moreover have "3 * a\<^sup>2 > 6 / 8" by (simp add: a_def power2_eq_square)
    ultimately have "8 * (c\<^sup>2 + c * a + a\<^sup>2) - 6 \<ge> 0"
      by (simp add: power2_eq_square)
    then have "(c - a) * (8 * (c\<^sup>2 + c * a + a\<^sup>2) - 6) \<ge> 0"
      using a by (intro mult_nonneg_nonneg) auto
    then have "8 * a ^ 3 - 6 * a + 1 \<le> 0" using cubic_diff [of c a] p by simp
    then show False by (simp add: a_def power3_eq_cube)
  qed
qed

lemma sin_40_bounds: "5659 / 10000 < sin (2 * pi / 9)" "sin (2 * pi / 9) < 66877 / 100000"
proof -
  define c where "c = cos (2 * pi / 9)"
  define s where "s = sin (2 * pi / 9)"
  have cb: "7435 / 10000 < c" "c < 7716 / 10000" unfolding c_def by (rule cos_40_bounds)+
  have s0: "0 < s" unfolding s_def by (rule sin_gt_zero) (use pi_gt_zero in auto)
  have sc: "s\<^sup>2 = 1 - c\<^sup>2" unfolding s_def c_def using sin_cos_squared_add [of "2 * pi / 9"] by linarith
  have "c\<^sup>2 < (7716 / 10000)\<^sup>2" using cb by (intro power_strict_mono) auto
  then have "(5659 / 10000)\<^sup>2 < s\<^sup>2" using sc by (simp add: power2_eq_square)
  then have "5659 / 10000 < s" by (rule power2_less_imp_less) (use s0 in simp)
  then show "5659 / 10000 < sin (2 * pi / 9)" by (simp add: s_def)
  have "(7435 / 10000)\<^sup>2 < c\<^sup>2" using cb by (intro power_strict_mono) auto
  then have "s\<^sup>2 < (66877 / 100000)\<^sup>2" using sc by (simp add: power2_eq_square)
  then have "s < 66877 / 100000" by (rule power2_less_imp_less) simp
  then show "sin (2 * pi / 9) < 66877 / 100000" by (simp add: s_def)
qed

lemma py_round_of_int: "py_round (of_int i) = i"
  by (simp add: py_round_def)

lemma py_round_numeral [simp]: "py_round (numeral n) = numeral n" "py_round 0 = 0" "py_round 1 = 1"
  using py_round_of_int [of "numeral n"] py_round_of_int [of 0] py_round_of_int [of 1] by simp_all

lemma replicate_numeral: "replicate (numeral n) x = x # replicate (pred_numeral n) x"
  by (simp add: numeral_eq_Suc)

section \<open>The end-to-end example\<close>

lemmas build_eval =
  build_metar_dict_def latest_values_def ex_end_to_end_def ex_gusty_def ex_calm_def ex_feature_def
  PARAMS_def bind_def getitem_def eq_minus1_def STATIONS_def fromisoformat_def replace_Z_def
  field_def digit_val_def parse_offset_def parse_time_def split_offset_def days_in_month_def
  isoformat_seconds_def zfill_def
  digits.simps dict_update_def num_item_def as_num_def kt_def cloud_code_def
  runway_and_components_def radians_def str_int_def

lemmas format_eval =
  metar_string_def metar_ts_def metar_wdir_def metar_wspd_def metar_gust_def metar_clouds_def
  metar_vis_def metar_temp_dew_def metar_qnh_def metar_rwy_def bind_def getitem_def num_item_def
  as_num_def py_str_def str_int_def zfill_def digits.simps truthy_def floordiv100_def
  fromisoformat_def field_def digit_val_def parse_offset_def parse_time_def split_offset_def
  days_in_month_def strftime_dHMZ_def
  replicate_numeral

lemma example_rounding:
  "py_round (12149 / 1250) = 10" "py_round (82021 / 1250) = 66" "py_round (157937 / 6250) = 25"
  "py_round (- (12149 / 6250)) = - 2"
  by (simp_all add: py_round_def)

lemma example_components:
  "py_round (12149 * cos (2 * pi / 9) / 1250) = 7" "py_round (12149 * sin (2 * pi / 9) / 1250) = 6"
  by (rule py_round_eqI; use cos_40_bounds sin_40_bounds in simp)+

lemma build_end_to_end: "build_metar_dict ''06156'' ex_end_to_end = Inr (ex_record (- 1) 10 (- 2))"
  by (simp add: build_eval ex_record_def Let_def example_rounding example_components)

lemma build_gusty: "build_metar_dict ''06156'' ex_gusty = Inr (ex_record 13 10 25)"
  by (simp add: build_eval ex_record_def Let_def example_rounding example_components)

lemma format_record:
  "metar_string float_str (ex_record gust_ms 10 gust) =
     Inr (''EKHK METAR 161250Z '' @ NL @
          ''14010'' @ (if 20 < gust then ''GG'' @ zfill (str_int gust) 2 else []) @ ''KT '' @ NL @
          ''9999 SCT000 Q1008 6/4 '' @ NL @
          '' R10 HW07 XW'' @ larrow @ ''06'' @ NL)"
  by (simp add: format_eval ex_record_def)

text \<open>
  Claim C1, as amended. For the payload of station 06156 with wind direction 140, wind
  speed 5 m/s, cloud cover 30, cloud height 20 m, visibility 12000, pressure 1008,
  temperature 6, dew point 4, observed at 2024-01-16T12:50:00Z, building the record and
  formatting it gives the report whose first line is \<open>EKHK METAR 161250Z\<close>, whose wind
  line is \<open>14010KT\<close>, whose cloud token is \<open>SCT000\<close> (a cover of 30 is above the bound
  25 of FEW) and whose visibility token is \<open>9999\<close>; each of the first three lines ends
  with a space.
\<close>

theorem end_to_end_report:
  "bind (build_metar_dict ''06156'' ex_end_to_end) (metar_string float_str) =
     Inr (''EKHK METAR 161250Z '' @ NL @
          ''14010KT '' @ NL @
          ''9999 SCT000 Q1008 6/4 '' @ NL @
          '' R10 HW07 XW'' @ larrow @ ''06'' @ NL)"
  by (simp add: build_end_to_end bind_def format_record)

text \<open>
  Claim C1 as it is written fails at its own payload: the cloud token of the report is
  \<open>SCT000\<close>, not \<open>FEW\<close> and a height code.
\<close>

theorem end_to_end_cloud_token_counterexample:
  "bind (build_metar_dict ''06156'' ex_end_to_end) (metar_clouds no_float_str) = Inr (VStr ''SCT000'') \<and>
   bind (build_metar_dict ''06156'' ex_end_to_end) (metar_string no_float_str) =
     Inr (''EKHK METAR 161250Z '' @ NL @
          ''14010KT '' @ NL @
          ''9999 SCT000 Q1008 6/4 '' @ NL @
          '' R10 HW07 XW'' @ larrow @ ''06'' @ NL)"
  by (simp add: build_end_to_end bind_def format_record)
     (simp add: ex_record_def format_eval)

text \<open>
  Claim C3, at inputs where the code departs from it. With a wind of 10 knots and a gust
  of 25 the wind line is \<open>14010GG25KT\<close>: the local \<open>gust\<close> already starts with \<open>G\<close>, and
  the line puts another \<open>G\<close> in front of it. The threshold is as the claim says: a gust
  of 20 knots, 10 above the wind, is left out, and a gust of 21 is put in, again with two
  \<open>G\<close>.
\<close>

theorem gust_token_doubled:
  "bind (build_metar_dict ''06156'' ex_gusty) (metar_string no_float_str) =
     Inr (''EKHK METAR 161250Z '' @ NL @
          ''14010GG25KT '' @ NL @
          ''9999 SCT000 Q1008 6/4 '' @ NL @
          '' R10 HW07 XW'' @ larrow @ ''06'' @ NL) \<and>
   metar_gust no_float_str (ex_record 13 10 25) = Inr ''G25'' \<and>
   metar_string no_float_str (ex_record 13 10 20) =
     Inr (''EKHK METAR 161250Z '' @ NL @
          ''14010KT '' @ NL @
          ''9999 SCT000 Q1008 6/4 '' @ NL @
          '' R10 HW07 XW'' @ larrow @ ''06'' @ NL) \<and>
   metar_string no_float_str (ex_record 13 10 21) =
     Inr (''EKHK METAR 161250Z '' @ NL @
          ''14010GG21KT '' @ NL @
          ''9999 SCT000 Q1008 6/4 '' @ NL @
          '' R10 HW07 XW'' @ larrow @ ''06'' @ NL)"
  by (simp add: build_gusty bind_def format_record)
     (simp add: ex_record_def format_eval)

section \<open>Properties of the formatter\<close>

lemma bind_eq_Inr: "bind m f = Inr y \<longleftrightarrow> (\<exists>x. m = Inr x \<and> f x = Inr y)"
  by (cases m) (simp_all add: bind_def)

text \<open>A report is made of the ten locals, in the layout of the \<^verbatim>\<open>return\<close> statement.\<close>

lemma metar_string_parts:
  assumes "metar_string float_str d = Inr s"
  shows "\<exists>ts wdir wspd gust clouds vis temp_dew qnh rwy station.
           metar_ts d = Inr ts \<and> metar_wdir d = Inr wdir \<and> metar_wspd float_str d = Inr wspd \<and>
           metar_gust float_str d = Inr gust \<and> metar_clouds float_str d = Inr clouds \<and>
           metar_vis d = Inr vis \<and> metar_temp_dew d = Inr temp_dew \<and> metar_qnh d = Inr qnh \<and>
           metar_rwy float_str d = Inr rwy \<and> getitem d ''station'' = Inr station \<and>
           s = py_str float_str station @ '' METAR '' @ ts @ '' '' @ NL @
               zfill (str_int wdir) 3 @ wspd @ (if gust \<noteq> [] then ''G'' else []) @ gust @ ''KT '' @ NL @
               vis @ '' '' @ py_str float_str clouds @ '' '' @ qnh @ '' '' @ temp_dew @ '' '' @ NL @
               '' '' @ rwy @ NL"
  using assms unfolding metar_string_def bind_eq_Inr by blast

lemma digit_not_sign:
  assumes "n < 10"
  shows "''0123456789'' ! n \<noteq> CHR ''+''" "''0123456789'' ! n \<noteq> CHR ''-''"
proof -
  have "''0123456789'' ! n \<in> set ''0123456789''" using assms by (intro nth_mem) simp
  then show "''0123456789'' ! n \<noteq> CHR ''+''" "''0123456789'' ! n \<noteq> CHR ''-''" by auto
qed

lemma two_digits:
  assumes "n < 100"
  shows "zfill (digits n) 2 = [''0123456789'' ! (n div 10), ''0123456789'' ! (n mod 10)]"
proof (cases "n < 10")
  case True
  then have "digits n = [''0123456789'' ! n]" by (simp add: digits.simps)
  then show ?thesis using True digit_not_sign [OF True] by (simp add: zfill_def)
next
  case False
  then have "n div 10 < 10" using assms by simp
  then have "digits n = [''0123456789'' ! (n div 10), ''0123456789'' ! (n mod 10)]"
    using False by (simp add: digits.simps [of n] digits.simps [of "n div 10"])
  then show ?thesis by (simp add: zfill_def)
qed

lemma metar_vis_middle:
  fixes v :: real
  assumes "100 \<le> v" "v \<le> 9999"
  shows "zfill (str_int \<lfloor>v / 100\<rfloor>) 2 =
           [''0123456789'' ! (nat \<lfloor>v / 100\<rfloor> div 10), ''0123456789'' ! (nat \<lfloor>v / 100\<rfloor> mod 10)]"
proof -
  have "1 \<le> \<lfloor>v / 100\<rfloor>" using assms by (simp add: le_floor_iff)
  moreover have "\<lfloor>v / 100\<rfloor> < 100" using assms by (simp add: floor_less_iff)
  ultimately have "\<not> \<lfloor>v / 100\<rfloor> < 0" "nat \<lfloor>v / 100\<rfloor> < 100" by linarith+
  then show ?thesis by (simp only: str_int_def if_False two_digits)
qed

text \<open>
  Claim C4, as amended. The visibility token is \<open>9999\<close> above 9999 m, \<open>0000\<close> below
  100 m, and otherwise the distance divided by 100, rounded down and padded to two digits,
  followed by \<open>00\<close>: two digits and two zeros. In the report it opens the third line.
  An input of 9999 gives \<open>9900\<close>, 50 gives \<open>0000\<close>, and 4321 gives \<open>4300\<close>.
\<close>

theorem visibility_token:
  "(num_item d ''visibility_m'' = Inr v \<longrightarrow>
      metar_vis d =
        Inr (if 9999 < v then ''9999''
             else if v < 100 then ''0000''
             else zfill (str_int \<lfloor>v / 100\<rfloor>) 2 @ ''00'')) \<and>
   (num_item d ''visibility_m'' = Inr v \<and> 100 \<le> v \<and> v \<le> 9999 \<longrightarrow>
      metar_vis d =
        Inr [''0123456789'' ! (nat \<lfloor>v / 100\<rfloor> div 10), ''0123456789'' ! (nat \<lfloor>v / 100\<rfloor> mod 10),
             CHR ''0'', CHR ''0'']) \<and>
   (metar_string float_str d = Inr s \<longrightarrow>
      (\<exists>vis front back. metar_vis d = Inr vis \<and> s = front @ ''KT '' @ NL @ vis @ '' '' @ back)) \<and>
   metar_vis [(''visibility_m'', VInt 9999)] = Inr ''9900'' \<and>
   metar_vis [(''visibility_m'', VInt 50)] = Inr ''0000'' \<and>
   metar_vis [(''visibility_m'', VInt 4321)] = Inr ''4300''"
proof (intro conjI impI)
  assume "num_item d ''visibility_m'' = Inr v"
  then show "metar_vis d =
        Inr (if 9999 < v then ''9999''
             else if v < 100 then ''0000''
             else zfill (str_int \<lfloor>v / 100\<rfloor>) 2 @ ''00'')"
    by (simp add: metar_vis_def bind_def)
next
  assume "num_item d ''visibility_m'' = Inr v \<and> 100 \<le> v \<and> v \<le> 9999"
  then show "metar_vis d =
        Inr [''0123456789'' ! (nat \<lfloor>v / 100\<rfloor> div 10), ''0123456789'' ! (nat \<lfloor>v / 100\<rfloor> mod 10),
             CHR ''0'', CHR ''0'']"
    using metar_vis_middle [of v] by (simp add: metar_vis_def bind_def)
next
  assume "metar_string float_str d = Inr s"
  from metar_string_parts [OF this] obtain ts wdir wspd gust clouds vis temp_dew qnh rwy station
    where vis: "metar_vis d = Inr vis"
      and s: "s = py_str float_str station @ '' METAR '' @ ts @ '' '' @ NL @
               zfill (str_int wdir) 3 @ wspd @ (if gust \<noteq> [] then ''G'' else []) @ gust @ ''KT '' @ NL @
               vis @ '' '' @ py_str float_str clouds @ '' '' @ qnh @ '' '' @ temp_dew @ '' '' @ NL @
               '' '' @ rwy @ NL"
    by blast
  define front where "front = py_str float_str station @ '' METAR '' @ ts @ '' '' @ NL @
               zfill (str_int wdir) 3 @ wspd @ (if gust \<noteq> [] then ''G'' else []) @ gust"
  define bk where "bk = py_str float_str clouds @ '' '' @ qnh @ '' '' @ temp_dew @ '' '' @ NL @
               '' '' @ rwy @ NL"
  have "s = front @ ''KT '' @ NL @ vis @ '' '' @ bk"
    unfolding s front_def bk_def by simp
  with vis show "\<exists>vis front back. metar_vis d = Inr vis \<and> s = front @ ''KT '' @ NL @ vis @ '' '' @ back"
    by blast
next
  show "metar_vis [(''visibility_m'', VInt 9999)] = Inr ''9900''"
    by (simp add: format_eval)
  show "metar_vis [(''visibility_m'', VInt 50)] = Inr ''0000''"
    by (simp add: format_eval)
  show "metar_vis [(''visibility_m'', VInt 4321)] = Inr ''4300''"
    by (simp add: format_eval)
qed

text \<open>
  The theorem at the record of the end-to-end example, with its visibility of 12000 m,
  and at a record with a visibility of 4321 m.
\<close>

theorem visibility_token_witness:
  "num_item (ex_record 13 10 25) ''visibility_m'' = Inr 12000 \<and>
   metar_vis (ex_record 13 10 25) = Inr ''9999'' \<and>
   num_item [(''visibility_m'', VInt 4321)] ''visibility_m'' = Inr 4321 \<and>
   metar_vis [(''visibility_m'', VInt 4321)] = Inr ''4300'' \<and>
   metar_string no_float_str (ex_record 13 10 25) =
     Inr (''EKHK METAR 161250Z '' @ NL @ ''14010GG25KT '' @ NL @ ''9999 SCT000 Q1008 6/4 '' @ NL @
          '' R10 HW07 XW'' @ larrow @ ''06'' @ NL) \<and>
   (\<exists>vis front back.
      metar_vis (ex_record 13 10 25) = Inr vis \<and>
      ''EKHK METAR 161250Z '' @ NL @ ''14010GG25KT '' @ NL @ ''9999 SCT000 Q1008 6/4 '' @ NL @
        '' R10 HW07 XW'' @ larrow @ ''06'' @ NL = front @ ''KT '' @ NL @ vis @ '' '' @ back)"
proof -
  have a: "num_item (ex_record 13 10 25) ''visibility_m'' = Inr 12000"
    by (simp add: ex_record_def num_item_def getitem_def bind_def as_num_def)
  have b: "num_item [(''visibility_m'', VInt 4321)] ''visibility_m'' = Inr 4321"
    by (simp add: num_item_def getitem_def bind_def as_num_def)
  have c: "metar_string no_float_str (ex_record 13 10 25) =
     Inr (''EKHK METAR 161250Z '' @ NL @ ''14010GG25KT '' @ NL @ ''9999 SCT000 Q1008 6/4 '' @ NL @
          '' R10 HW07 XW'' @ larrow @ ''06'' @ NL)"
    by (simp add: format_record) (simp add: str_int_def zfill_def digits.simps)
  note t1 = visibility_token [of "ex_record 13 10 25" 12000 no_float_str
      "''EKHK METAR 161250Z '' @ NL @ ''14010GG25KT '' @ NL @ ''9999 SCT000 Q1008 6/4 '' @ NL @
          '' R10 HW07 XW'' @ larrow @ ''06'' @ NL"]
  note t2 = visibility_token [of "[(''visibility_m'', VInt 4321)]" 4321]
  have "metar_vis (ex_record 13 10 25) = Inr ''9999''" using t1 a by simp
  moreover have "metar_vis [(''visibility_m'', VInt 4321)] = Inr ''4300''"
    using t2 b by (simp add: str_int_def zfill_def digits.simps)
  moreover have "\<exists>vis front back.
      metar_vis (ex_record 13 10 25) = Inr vis \<and>
      ''EKHK METAR 161250Z '' @ NL @ ''14010GG25KT '' @ NL @ ''9999 SCT000 Q1008 6/4 '' @ NL @
        '' R10 HW07 XW'' @ larrow @ ''06'' @ NL = front @ ''KT '' @ NL @ vis @ '' '' @ back"
    using t1 c by blast
  ultimately show ?thesis using a b c by blast
qed

text \<open>
  Claim C4 as it is written fails at two of its own examples: 9999 m gives \<open>9900\<close>, not
  \<open>9999\<close>, and 4321 m gives \<open>4300\<close>, not \<open>0043\<close>.
\<close>

theorem visibility_examples_counterexample:
  "metar_vis [(''visibility_m'', VInt 9999)] = Inr ''9900'' \<and>
   metar_vis [(''visibility_m'', VInt 4321)] = Inr ''4300'' \<and>
   metar_vis [(''visibility_m'', VFloat 9999)] = Inr ''9900'' \<and>
   metar_vis [(''visibility_m'', VFloat 4321)] = Inr ''4300''"
  by (simp add: format_eval)

section \<open>Properties of the helpers\<close>

lemma py_round_nonneg: "0 \<le> x \<Longrightarrow> 0 \<le> py_round x"
proof -
  assume "0 \<le> x"
  then have "0 \<le> \<lfloor>x\<rfloor>" by simp
  then show ?thesis by (simp add: py_round_def Let_def)
qed

lemma py_round_minus: "py_round (- x) = - py_round x"
proof (cases "x = of_int \<lfloor>x\<rfloor>")
  case True
  then obtain n where n: "x = of_int n" ..
  have "py_round (of_int (- n)) = - n" by (rule py_round_of_int)
  then show ?thesis using n by (simp add: py_round_of_int)
next
  case False
  then have lt: "of_int \<lfloor>x\<rfloor> < x" using of_int_floor_le [of x] by linarith
  have "\<lfloor>- x\<rfloor> = - \<lfloor>x\<rfloor> - 1"
    by (rule floor_unique) (use lt in \<open>simp_all, linarith+\<close>)
  then show ?thesis using lt by (auto simp: py_round_def Let_def)
qed

lemma py_round_abs: "\<bar>py_round x\<bar> = py_round \<bar>x\<bar>"
proof (cases "0 \<le> x")
  case True
  then show ?thesis using py_round_nonneg [of x] by simp
next
  case False
  then have "0 \<le> py_round (- x)" by (intro py_round_nonneg) simp
  then show ?thesis using False by (simp add: py_round_minus)
qed

text \<open>
  Claim C5. For every wind direction, those of \<open>[0, 360)\<close> among them, and every wind
  speed: the runway is \<open>10\<close> exactly when the direction lies strictly between 10 and 190,
  and \<open>28\<close> otherwise. With the angular offset of the sector in degrees, the angle is the
  offset times \<open>pi / 180\<close> and the speed in knots is the speed in m/s times \<open>1.94384\<close>;
  the headwind is the rounded absolute value of the cosine of the angle times the knots,
  the crosswind the same with the sine, both integers that are not negative; and the
  crosswind comes from the left exactly when the offset is negative, else from the right.
  Four inputs are evaluated: 5 m/s from 140, 100, 190 and 10 degrees.
\<close>

theorem runway_and_components_correct:
  "(let offset = (if 10 < wdir \<and> wdir < 190 then wdir - 100
                  else if 190 \<le> wdir then wdir - 280 else wdir + 80);
        hw = py_round \<bar>cos (offset * pi / 180) * (wspd_ms * 1.94384)\<bar>;
        xw = py_round \<bar>sin (offset * pi / 180) * (wspd_ms * 1.94384)\<bar>
    in runway_and_components wdir wspd_ms =
         [(''runway'', VStr (if 10 < wdir \<and> wdir < 190 then ''10'' else ''28'')),
          (''headwind_kt'', VInt hw),
          (''crosswind_kt'', VInt xw),
          (''crosswind_from'', VStr (if offset < 0 then ''left'' else ''right''))] \<and>
       (map_of (runway_and_components wdir wspd_ms) ''crosswind_from'' = Some (VStr ''left'')) =
         (offset < 0) \<and>
       (map_of (runway_and_components wdir wspd_ms) ''crosswind_from'' = Some (VStr ''right'')) =
         (\<not> offset < 0) \<and>
       0 \<le> hw \<and> 0 \<le> xw \<and>
       hw = \<lfloor>\<bar>cos (offset * pi / 180) * (wspd_ms * 1.94384)\<bar>\<rfloor> +
            (if \<bar>cos (offset * pi / 180) * (wspd_ms * 1.94384)\<bar> -
                  of_int \<lfloor>\<bar>cos (offset * pi / 180) * (wspd_ms * 1.94384)\<bar>\<rfloor> < 1 / 2 then 0
             else if 1 / 2 < \<bar>cos (offset * pi / 180) * (wspd_ms * 1.94384)\<bar> -
                  of_int \<lfloor>\<bar>cos (offset * pi / 180) * (wspd_ms * 1.94384)\<bar>\<rfloor> then 1
             else if even \<lfloor>\<bar>cos (offset * pi / 180) * (wspd_ms * 1.94384)\<bar>\<rfloor> then 0 else 1)) \<and>
   (map_of (runway_and_components wdir wspd_ms) ''runway'' = Some (VStr ''10'')) = (10 < wdir \<and> wdir < 190) \<and>
   (map_of (runway_and_components wdir wspd_ms) ''runway'' = Some (VStr ''28'')) = (\<not> (10 < wdir \<and> wdir < 190)) \<and>
   runway_and_components 140 5 =
     [(''runway'', VStr ''10''), (''headwind_kt'', VInt 7), (''crosswind_kt'', VInt 6),
      (''crosswind_from'', VStr ''right'')] \<and>
   runway_and_components 100 5 =
     [(''runway'', VStr ''10''), (''headwind_kt'', VInt 10), (''crosswind_kt'', VInt 0),
      (''crosswind_from'', VStr ''right'')] \<and>
   runway_and_components 190 5 =
     [(''runway'', VStr ''28''), (''headwind_kt'', VInt 0), (''crosswind_kt'', VInt 10),
      (''crosswind_from'', VStr ''left'')] \<and>
   runway_and_components 10 5 =
     [(''runway'', VStr ''28''), (''headwind_kt'', VInt 0), (''crosswind_kt'', VInt 10),
      (''crosswind_from'', VStr ''right'')]"
proof -
  define offset where "offset = (if 10 < wdir \<and> wdir < 190 then wdir - 100
                  else if 190 \<le> wdir then wdir - 280 else wdir + 80)"
  define h where "h = \<bar>cos (offset * pi / 180) * (wspd_ms * 1.94384)\<bar>"
  define x where "x = \<bar>sin (offset * pi / 180) * (wspd_ms * 1.94384)\<bar>"
  have r: "runway_and_components wdir wspd_ms =
     [(''runway'', VStr (if 10 < wdir \<and> wdir < 190 then ''10'' else ''28'')),
      (''headwind_kt'', VInt (py_round h)),
      (''crosswind_kt'', VInt (py_round x)),
      (''crosswind_from'', VStr (if offset < 0 then ''left'' else ''right''))]"
    unfolding offset_def h_def x_def
    by (simp add: runway_and_components_def kt_def radians_def Let_def py_round_abs str_int_def
        digits.simps)
  have n: "0 \<le> py_round h" "0 \<le> py_round x"
    unfolding h_def x_def by (rule py_round_nonneg, simp)+
  have f: "py_round h = \<lfloor>h\<rfloor> +
            (if h - of_int \<lfloor>h\<rfloor> < 1 / 2 then 0
             else if 1 / 2 < h - of_int \<lfloor>h\<rfloor> then 1
             else if even \<lfloor>h\<rfloor> then 0 else 1)"
    by (simp add: py_round_def Let_def)
  have general: "runway_and_components wdir wspd_ms =
         [(''runway'', VStr (if 10 < wdir \<and> wdir < 190 then ''10'' else ''28'')),
          (''headwind_kt'', VInt (py_round h)),
          (''crosswind_kt'', VInt (py_round x)),
          (''crosswind_from'', VStr (if offset < 0 then ''left'' else ''right''))] \<and>
       (map_of (runway_and_components wdir wspd_ms) ''crosswind_from'' = Some (VStr ''left'')) =
         (offset < 0) \<and>
       (map_of (runway_and_components wdir wspd_ms) ''crosswind_from'' = Some (VStr ''right'')) =
         (\<not> offset < 0) \<and>
       0 \<le> py_round h \<and> 0 \<le> py_round x \<and>
       py_round h = \<lfloor>h\<rfloor> +
            (if h - of_int \<lfloor>h\<rfloor> < 1 / 2 then 0
             else if 1 / 2 < h - of_int \<lfloor>h\<rfloor> then 1
             else if even \<lfloor>h\<rfloor> then 0 else 1)"
    using n f unfolding r by simp
  have rw: "(map_of (runway_and_components wdir wspd_ms) ''runway'' = Some (VStr ''10'')) = (10 < wdir \<and> wdir < 190)"
    "(map_of (runway_and_components wdir wspd_ms) ''runway'' = Some (VStr ''28'')) = (\<not> (10 < wdir \<and> wdir < 190))"
    unfolding r by simp_all
  have e1: "runway_and_components 140 5 =
     [(''runway'', VStr ''10''), (''headwind_kt'', VInt 7), (''crosswind_kt'', VInt 6),
      (''crosswind_from'', VStr ''right'')]"
  proof -
    have "py_round (cos (2 * pi / 9) * 12149 / 1250) = 7" "py_round (sin (2 * pi / 9) * 12149 / 1250) = 6"
      by (rule py_round_eqI; use cos_40_bounds sin_40_bounds in simp)+
    then show ?thesis
      by (simp add: runway_and_components_def kt_def radians_def Let_def str_int_def digits.simps)
  qed
  have e2: "runway_and_components 100 5 =
     [(''runway'', VStr ''10''), (''headwind_kt'', VInt 10), (''crosswind_kt'', VInt 0),
      (''crosswind_from'', VStr ''right'')]"
    by (simp add: runway_and_components_def kt_def radians_def Let_def str_int_def digits.simps
        example_rounding)
  have e3: "runway_and_components 190 5 =
     [(''runway'', VStr ''28''), (''headwind_kt'', VInt 0), (''crosswind_kt'', VInt 10),
      (''crosswind_from'', VStr ''left'')]"
    by (simp add: runway_and_components_def kt_def radians_def Let_def str_int_def digits.simps
        example_rounding py_round_minus)
  have e4: "runway_and_components 10 5 =
     [(''runway'', VStr ''28''), (''headwind_kt'', VInt 0), (''crosswind_kt'', VInt 10),
      (''crosswind_from'', VStr ''right'')]"
    by (simp add: runway_and_components_def kt_def radians_def Let_def str_int_def digits.simps
        example_rounding)
  show ?thesis
    using general rw e1 e2 e3 e4 unfolding offset_def h_def x_def Let_def by blast
qed

text \<open>
  Claim C6. The cover code by inclusive upper bounds: NCD up to 0, SKC up to 10, FEW up
  to 25, SCT up to 50, BKN up to 90, OVC above; and the five values at the bounds.
\<close>

theorem cloud_code_buckets:
  "cloud_code cover =
     (if cover \<le> 0 then ''NCD'' else if cover \<le> 10 then ''SKC'' else if cover \<le> 25 then ''FEW''
      else if cover \<le> 50 then ''SCT'' else if cover \<le> 90 then ''BKN'' else ''OVC'') \<and>
   (cloud_code cover = ''NCD'') = (cover \<le> 0) \<and>
   (cloud_code cover = ''SKC'') = (0 < cover \<and> cover \<le> 10) \<and>
   (cloud_code cover = ''FEW'') = (10 < cover \<and> cover \<le> 25) \<and>
   (cloud_code cover = ''SCT'') = (25 < cover \<and> cover \<le> 50) \<and>
   (cloud_code cover = ''BKN'') = (50 < cover \<and> cover \<le> 90) \<and>
   (cloud_code cover = ''OVC'') = (90 < cover) \<and>
   cloud_code 0 = ''NCD'' \<and> cloud_code 10 = ''SKC'' \<and> cloud_code 10.01 = ''FEW'' \<and>
   cloud_code 90 = ''BKN'' \<and> cloud_code 90.01 = ''OVC''"
  by (simp add: cloud_code_def)

lemma arrows_differ: "larrow \<noteq> rarrow"
  by (simp add: larrow_def rarrow_def)

text \<open>
  Claim C7. For every record the runway block is \<open>R\<close> and the runway, \<open>HW\<close> and the
  headwind padded to two digits, \<open>XW\<close>, an arrow and the crosswind padded to two digits.
  The arrow points left when the crosswind side is \<open>right\<close> and right when it is
  \<open>left\<close>. In every report the block, after one space, is the last line.
\<close>

theorem runway_block:
  "(getitem d ''runway'' = Inr r \<and> getitem d ''headwind_kt'' = Inr hw \<and>
    getitem d ''crosswind_from'' = Inr side \<and> getitem d ''crosswind_kt'' = Inr xw \<longrightarrow>
      metar_rwy float_str d =
        Inr (''R'' @ py_str float_str r @ '' HW'' @ zfill (py_str float_str hw) 2 @ '' XW'' @
             (if side = VStr ''right'' then larrow else rarrow) @ zfill (py_str float_str xw) 2) \<and>
      (side = VStr ''right'' \<longrightarrow>
         metar_rwy float_str d =
           Inr (''R'' @ py_str float_str r @ '' HW'' @ zfill (py_str float_str hw) 2 @ '' XW'' @
                larrow @ zfill (py_str float_str xw) 2)) \<and>
      (side = VStr ''left'' \<longrightarrow>
         metar_rwy float_str d =
           Inr (''R'' @ py_str float_str r @ '' HW'' @ zfill (py_str float_str hw) 2 @ '' XW'' @
                rarrow @ zfill (py_str float_str xw) 2))) \<and>
   (metar_string float_str d = Inr s \<longrightarrow>
      (\<exists>rwy front. metar_rwy float_str d = Inr rwy \<and> s = front @ NL @ '' '' @ rwy @ NL)) \<and>
   larrow = [CHR 0xE2, CHR 0x86, CHR 0x90] \<and> rarrow = [CHR 0xE2, CHR 0x86, CHR 0x92]"
proof (intro conjI impI)
  assume "metar_string float_str d = Inr s"
  from metar_string_parts [OF this] obtain ts wdir wspd gust clouds vis temp_dew qnh rwy station
    where rwy: "metar_rwy float_str d = Inr rwy"
      and s: "s = py_str float_str station @ '' METAR '' @ ts @ '' '' @ NL @
               zfill (str_int wdir) 3 @ wspd @ (if gust \<noteq> [] then ''G'' else []) @ gust @ ''KT '' @ NL @
               vis @ '' '' @ py_str float_str clouds @ '' '' @ qnh @ '' '' @ temp_dew @ '' '' @ NL @
               '' '' @ rwy @ NL"
    by blast
  define front where "front = py_str float_str station @ '' METAR '' @ ts @ '' '' @ NL @
               zfill (str_int wdir) 3 @ wspd @ (if gust \<noteq> [] then ''G'' else []) @ gust @ ''KT '' @ NL @
               vis @ '' '' @ py_str float_str clouds @ '' '' @ qnh @ '' '' @ temp_dew @ '' ''"
  have "s = front @ NL @ '' '' @ rwy @ NL" unfolding s front_def by simp
  with rwy show "\<exists>rwy front. metar_rwy float_str d = Inr rwy \<and> s = front @ NL @ '' '' @ rwy @ NL"
    by blast
qed (simp_all add: metar_rwy_def bind_def larrow_def rarrow_def)

text \<open>
  The theorem at the record of the example, whose crosswind comes from the right, and at
  a record whose crosswind comes from the left.
\<close>

theorem runway_block_witness:
  "getitem (ex_record 13 10 25) ''runway'' = Inr (VStr ''10'') \<and>
   getitem (ex_record 13 10 25) ''headwind_kt'' = Inr (VInt 7) \<and>
   getitem (ex_record 13 10 25) ''crosswind_from'' = Inr (VStr ''right'') \<and>
   getitem (ex_record 13 10 25) ''crosswind_kt'' = Inr (VInt 6) \<and>
   metar_rwy no_float_str (ex_record 13 10 25) = Inr (''R10 HW07 XW'' @ larrow @ ''06'') \<and>
   metar_rwy no_float_str
     [(''runway'', VStr ''28''), (''headwind_kt'', VInt 3), (''crosswind_from'', VStr ''left''),
      (''crosswind_kt'', VInt 12)] = Inr (''R28 HW03 XW'' @ rarrow @ ''12'') \<and>
   metar_string no_float_str (ex_record 13 10 25) =
     Inr (''EKHK METAR 161250Z '' @ NL @ ''14010GG25KT '' @ NL @ ''9999 SCT000 Q1008 6/4 '' @ NL @
          '' R10 HW07 XW'' @ larrow @ ''06'' @ NL) \<and>
   (\<exists>rwy front.
      metar_rwy no_float_str (ex_record 13 10 25) = Inr rwy \<and>
      ''EKHK METAR 161250Z '' @ NL @ ''14010GG25KT '' @ NL @ ''9999 SCT000 Q1008 6/4 '' @ NL @
        '' R10 HW07 XW'' @ larrow @ ''06'' @ NL = front @ NL @ '' '' @ rwy @ NL)"
proof -
  have a: "getitem (ex_record 13 10 25) ''runway'' = Inr (VStr ''10'')"
    "getitem (ex_record 13 10 25) ''headwind_kt'' = Inr (VInt 7)"
    "getitem (ex_record 13 10 25) ''crosswind_from'' = Inr (VStr ''right'')"
    "getitem (ex_record 13 10 25) ''crosswind_kt'' = Inr (VInt 6)"
    by (simp_all add: ex_record_def getitem_def)
  define d2 where "d2 = [(''runway'', VStr ''28''), (''headwind_kt'', VInt 3),
      (''crosswind_from'', VStr ''left''), (''crosswind_kt'', VInt (12 :: int))]"
  have b: "getitem d2 ''runway'' = Inr (VStr ''28'')" "getitem d2 ''headwind_kt'' = Inr (VInt 3)"
    "getitem d2 ''crosswind_from'' = Inr (VStr ''left'')" "getitem d2 ''crosswind_kt'' = Inr (VInt 12)"
    by (simp_all add: d2_def getitem_def)
  have c: "metar_string no_float_str (ex_record 13 10 25) =
     Inr (''EKHK METAR 161250Z '' @ NL @ ''14010GG25KT '' @ NL @ ''9999 SCT000 Q1008 6/4 '' @ NL @
          '' R10 HW07 XW'' @ larrow @ ''06'' @ NL)"
    by (simp add: format_record) (simp add: str_int_def zfill_def digits.simps)
  note t1 = runway_block [of "ex_record 13 10 25" "VStr ''10''" "VInt 7" "VStr ''right''" "VInt 6"
      no_float_str
      "''EKHK METAR 161250Z '' @ NL @ ''14010GG25KT '' @ NL @ ''9999 SCT000 Q1008 6/4 '' @ NL @
          '' R10 HW07 XW'' @ larrow @ ''06'' @ NL"]
  note t2 = runway_block [of d2 "VStr ''28''" "VInt 3" "VStr ''left''" "VInt 12" no_float_str]
  have "metar_rwy no_float_str (ex_record 13 10 25) = Inr (''R10 HW07 XW'' @ larrow @ ''06'')"
    using t1 a by (simp add: py_str_def str_int_def zfill_def digits.simps replicate_numeral)
  moreover have "metar_rwy no_float_str d2 = Inr (''R28 HW03 XW'' @ rarrow @ ''12'')"
    using t2 b by (simp add: py_str_def str_int_def zfill_def digits.simps replicate_numeral)
  moreover have "\<exists>rwy front.
      metar_rwy no_float_str (ex_record 13 10 25) = Inr rwy \<and>
      ''EKHK METAR 161250Z '' @ NL @ ''14010GG25KT '' @ NL @ ''9999 SCT000 Q1008 6/4 '' @ NL @
        '' R10 HW07 XW'' @ larrow @ ''06'' @ NL = front @ NL @ '' '' @ rwy @ NL"
    using t1 c by blast
  ultimately show ?thesis using a c unfolding d2_def by blast
qed

section \<open>Properties of the report builder\<close>

lemma map_of_rev_distinct: "distinct (map fst xs) \<Longrightarrow> map_of (rev xs) k = map_of xs k"
proof (induction xs)
  case Nil
  then show ?case by simp
next
  case (Cons x xs)
  then have "fst x \<notin> fst ` set xs" by simp
  then have "map_of xs (fst x) = None" by (simp add: map_of_eq_None_iff)
  with Cons show ?case by (cases x) (auto simp: map_add_def split: option.splits)
qed

lemma map_of_dict_update: "map_of (dict_update d e) = map_of d ++ map_of (rev e)"
  unfolding dict_update_def
  by (induction e arbitrary: d) (simp_all add: update_conv')

lemma rc_lookup:
  "map_of (dict_update mb (runway_and_components wdir ws)) k =
     (if k = ''crosswind_from'' then Some (VStr (if runway_offset wdir < 0 then ''left'' else ''right''))
      else if k = ''crosswind_kt'' then Some (VInt \<bar>py_round (sin (radians (runway_offset wdir)) * kt ws)\<bar>)
      else if k = ''headwind_kt'' then Some (VInt \<bar>py_round (cos (radians (runway_offset wdir)) * kt ws)\<bar>)
      else if k = ''runway'' then Some (VStr (if 10 < wdir \<and> wdir < 190 then ''10'' else ''28''))
      else map_of mb k)"
  by (simp add: map_of_dict_update runway_and_components_def runway_offset_def Let_def str_int_def
      digits.simps map_add_def)

lemma build_metar_dict_parts:
  assumes "build_metar_dict station_id raw = Inr d"
  shows "\<exists>vals ws wdir mb base.
           latest_values raw = Inr vals \<and> num_item vals ''wind_speed_ms'' = Inr ws \<and>
           num_item vals ''wind_dir_deg'' = Inr wdir \<and>
           d = dict_update mb (runway_and_components wdir ws) \<and>
           map_of mb ''wind_speed_ms'' = map_of (dict_update base vals) ''wind_speed_ms''"
proof -
  from assms obtain vals obs_dt ws wg cover ch wdir where
    v: "latest_values raw = Inr vals" and ws: "num_item vals ''wind_speed_ms'' = Inr ws"
    and wdir: "num_item vals ''wind_dir_deg'' = Inr wdir"
    and d: "d = dict_update
          (AList.update ''cloud_height_ft'' (if ch > 15 then VInt (py_round (ch * 3.28084)) else VNone)
            (AList.update ''cloud_code'' (VStr (cloud_code cover))
              (AList.update ''wind_gust_kt'' (VInt (py_round (kt wg)))
                (AList.update ''wind_speed_kt'' (VInt (py_round (kt ws)))
                  (dict_update
                    [(''station'', VStr (case map_of STATIONS station_id of Some n \<Rightarrow> n | None \<Rightarrow> station_id)),
                     (''observed'', VStr (isoformat_seconds obs_dt))] vals)))))
          (runway_and_components wdir ws)"
    unfolding build_metar_dict_def bind_eq_Inr Let_def by auto
  show ?thesis
    by (intro exI conjI, rule v, rule ws, rule wdir, rule d) (simp add: update_conv')
qed

lemma wind_speed_kept:
  assumes "build_metar_dict station_id raw = Inr d"
  shows "\<exists>ws wdir mb. d = dict_update mb (runway_and_components wdir ws) \<and>
           num_item d ''wind_speed_ms'' = Inr ws"
proof -
  from build_metar_dict_parts [OF assms] obtain vals ws wdir mb base where
    v: "latest_values raw = Inr vals" and ws: "num_item vals ''wind_speed_ms'' = Inr ws"
    and d: "d = dict_update mb (runway_and_components wdir ws)"
    and mb: "map_of mb ''wind_speed_ms'' = map_of (dict_update base vals) ''wind_speed_ms''"
    by blast
  from ws obtain x where x: "map_of vals ''wind_speed_ms'' = Some x" "as_num x = Inr ws"
    by (auto simp: num_item_def getitem_def bind_eq_Inr split: option.splits)
  have "distinct (map fst vals)" using latest_values_keys [OF v] PARAMS_distinct_snd by simp
  then have "map_of (rev vals) ''wind_speed_ms'' = Some x" using x by (simp add: map_of_rev_distinct)
  then have "map_of mb ''wind_speed_ms'' = Some x" using mb by (simp add: map_of_dict_update)
  then have "map_of d ''wind_speed_ms'' = Some x" unfolding d by (simp add: rc_lookup)
  then have "num_item d ''wind_speed_ms'' = Inr ws"
    using x by (simp add: num_item_def getitem_def bind_def)
  with d show ?thesis by blast
qed

text \<open>
  Claim C9. Every record the builder returns has the runway, the headwind, the crosswind
  and the crosswind side, all four: the runway is \<open>10\<close> or \<open>28\<close>, the side \<open>left\<close> or
  \<open>right\<close>, the two components integers that are not negative. When the wind speed of
  the record is zero, both components are there with the value zero.
\<close>

theorem derived_fields_present:
  assumes "build_metar_dict station_id raw = Inr d"
  shows "\<exists>rwy hw xw side.
           map_of d ''runway'' = Some (VStr rwy) \<and> map_of d ''headwind_kt'' = Some (VInt hw) \<and>
           map_of d ''crosswind_kt'' = Some (VInt xw) \<and> map_of d ''crosswind_from'' = Some (VStr side) \<and>
           (rwy = ''10'' \<or> rwy = ''28'') \<and> (side = ''left'' \<or> side = ''right'') \<and> 0 \<le> hw \<and> 0 \<le> xw \<and>
           (num_item d ''wind_speed_ms'' = Inr 0 \<longrightarrow> hw = 0 \<and> xw = 0)"
proof -
  from wind_speed_kept [OF assms] obtain ws wdir mb where
    d: "d = dict_update mb (runway_and_components wdir ws)"
    and ws: "num_item d ''wind_speed_ms'' = Inr ws" by blast
  define hw where "hw = \<bar>py_round (cos (radians (runway_offset wdir)) * kt ws)\<bar>"
  define xw where "xw = \<bar>py_round (sin (radians (runway_offset wdir)) * kt ws)\<bar>"
  have look: "map_of d ''runway'' = Some (VStr (if 10 < wdir \<and> wdir < 190 then ''10'' else ''28''))"
    "map_of d ''headwind_kt'' = Some (VInt hw)" "map_of d ''crosswind_kt'' = Some (VInt xw)"
    "map_of d ''crosswind_from'' = Some (VStr (if runway_offset wdir < 0 then ''left'' else ''right''))"
    unfolding d hw_def xw_def by (simp_all add: rc_lookup)
  have nonneg: "0 \<le> hw" "0 \<le> xw" by (simp_all add: hw_def xw_def)
  have calm: "hw = 0 \<and> xw = 0" if "num_item d ''wind_speed_ms'' = Inr 0"
  proof -
    from that ws have "ws = 0" by simp
    then show ?thesis by (simp add: hw_def xw_def kt_def)
  qed
  show ?thesis
    by (intro exI conjI impI, rule look(1), rule look(2), rule look(3), rule look(4))
       (use nonneg calm in auto)
qed

lemma build_calm:
  "build_metar_dict ''06156'' ex_calm =
     Inr [(''station'', VStr ''EKHK''), (''observed'', VStr ''2024-01-16T12:50:00+00:00''),
          (''temp_dew_c'', VInt (- 1)), (''temp_dry_c'', VInt (- 1)), (''visibility_m'', VInt (- 1)),
          (''qnh_hpa'', VInt (- 1)), (''wind_dir_deg'', VInt 0), (''wind_speed_ms'', VInt 0),
          (''wind_gust_ms'', VInt 0), (''cloud_cover_pct'', VInt (- 1)),
          (''cloud_height_m'', VInt (- 1)), (''wind_speed_kt'', VInt 0), (''wind_gust_kt'', VInt 0),
          (''cloud_code'', VStr ''NCD''), (''cloud_height_ft'', VNone), (''runway'', VStr ''28''),
          (''headwind_kt'', VInt 0), (''crosswind_kt'', VInt 0), (''crosswind_from'', VStr ''right'')]"
  by (simp add: build_eval Let_def)

text \<open>The theorem at the payload \<open>ex_calm\<close>, whose wind speed is zero.\<close>

theorem derived_fields_present_witness:
  "(\<exists>d. build_metar_dict ''06156'' ex_calm = Inr d \<and>
        num_item d ''wind_speed_ms'' = Inr 0 \<and>
        map_of d ''runway'' = Some (VStr ''28'') \<and> map_of d ''headwind_kt'' = Some (VInt 0) \<and>
        map_of d ''crosswind_kt'' = Some (VInt 0) \<and> map_of d ''crosswind_from'' = Some (VStr ''right''))"
proof -
  obtain d where d: "build_metar_dict ''06156'' ex_calm = Inr d"
    and k: "num_item d ''wind_speed_ms'' = Inr 0" "map_of d ''runway'' = Some (VStr ''28'')"
      "map_of d ''crosswind_from'' = Some (VStr ''right'')"
    by (simp add: build_calm num_item_def getitem_def bind_def as_num_def)
  from derived_fields_present [OF d] k(1) have
    "map_of d ''headwind_kt'' = Some (VInt 0)" "map_of d ''crosswind_kt'' = Some (VInt 0)"
    by auto
  with d k show ?thesis by blast
qed

section \<open>Properties of the batch builder\<close>

lemma get_metar_loop_concat:
  "get_metar_loop fetch_station sids out err =
     (out @ concat (map (station_records fetch_station) sids),
      err @ concat (map (station_log fetch_station) sids))"
proof (induction sids arbitrary: out err)
  case Nil
  then show ?case by simp
next
  case (Cons sid rest)
  show ?case
  proof (cases "bind (fetch_station sid) (\<lambda>raw. build_metar_dict sid raw)")
    case (Inr bits)
    then show ?thesis by (simp add: Cons.IH station_records_def station_log_def)
  next
    case (Inl exc)
    then show ?thesis by (cases exc) (simp_all add: Cons.IH station_records_def station_log_def)
  qed
qed

text \<open>
  Claim C8. The batch builder always returns a list: no error of a station reaches the
  caller. Each station of the list adds its own record when fetching and building
  succeed, and nothing but a line of the log when either raises. So a station that fails is left out, and the
  result is the one of the same list without that station; a station that succeeds has
  its record in the result, between the records of the stations before and after it,
  whatever happens to the others.
\<close>

theorem get_metar_skips_failed_stations:
  "fst (get_metar fetch_station station_ids) =
     concat (map (station_records fetch_station)
       (if station_ids = [] then map fst STATIONS else station_ids)) \<and>
   snd (get_metar fetch_station station_ids) =
     concat (map (station_log fetch_station)
       (if station_ids = [] then map fst STATIONS else station_ids)) \<and>
   (bind (fetch_station bad) (build_metar_dict bad) = Inl exc \<longrightarrow>
      fst (get_metar fetch_station (before @ bad # after)) =
        fst (get_metar_loop fetch_station (before @ after) [] []) \<and>
      fst (get_metar fetch_station (before @ bad # after)) =
        concat (map (station_records fetch_station) before) @
        concat (map (station_records fetch_station) after)) \<and>
   (bind (fetch_station good) (build_metar_dict good) = Inr bits \<longrightarrow>
      fst (get_metar fetch_station (before @ good # after)) =
        concat (map (station_records fetch_station) before) @ [bits] @
        concat (map (station_records fetch_station) after))"
  by (simp add: get_metar_def get_metar_loop_concat station_records_def)

text \<open>
  The theorem at a batch of three stations: the provider refuses 06170, the builder
  raises on the empty payload of 99999, and 06156 gives the record of the end-to-end
  example, the only one in the result.
\<close>

theorem get_metar_skips_failed_stations_witness:
  "bind (ex_fetch ''06170'') (build_metar_dict ''06170'') = Inl (HTTPError 500) \<and>
   bind (ex_fetch ''99999'') (build_metar_dict ''99999'') = Inl IndexError \<and>
   bind (ex_fetch ''06156'') (build_metar_dict ''06156'') = Inr (ex_record (- 1) 10 (- 2)) \<and>
   fst (get_metar ex_fetch [''06170'', ''99999'', ''06156'']) = [ex_record (- 1) 10 (- 2)] \<and>
   fst (get_metar ex_fetch [''06170'', ''99999'', ''06156'']) =
     fst (get_metar_loop ex_fetch [''99999'', ''06156''] [] [])"
proof -
  have a: "bind (ex_fetch ''06170'') (build_metar_dict ''06170'') = Inl (HTTPError 500)"
    by (simp add: ex_fetch_def bind_def)
  have b: "bind (ex_fetch ''99999'') (build_metar_dict ''99999'') = Inl IndexError"
    by (simp add: ex_fetch_def build_eval)
  have c: "bind (ex_fetch ''06156'') (build_metar_dict ''06156'') = Inr (ex_record (- 1) 10 (- 2))"
    by (simp add: ex_fetch_def bind_def build_end_to_end)
  have r: "station_records ex_fetch ''06170'' = []" "station_records ex_fetch ''99999'' = []"
    using a b by (simp_all add: station_records_def)
  note bad = get_metar_skips_failed_stations
    [of ex_fetch "[''06170'', ''99999'', ''06156'']" "''06170''" "HTTPError 500" "[]"
        "[''99999'', ''06156'']"]
  note good = get_metar_skips_failed_stations
    [of ex_fetch "[''06170'', ''99999'', ''06156'']" "''06170''" "HTTPError 500"
        "[''06170'', ''99999'']" "[]" "''06156''"
        "ex_record (- 1) 10 (- 2)"]
  have "fst (get_metar ex_fetch [''06170'', ''99999'', ''06156'']) =
     fst (get_metar_loop ex_fetch [''99999'', ''06156''] [] [])"
    using bad [unfolded append.simps] a by blast
  moreover have "fst (get_metar ex_fetch [''06170'', ''99999'', ''06156'']) =
     concat (map (station_records ex_fetch) [''06170'', ''99999'']) @
     ex_record (- 1) 10 (- 2) # concat (map (station_records ex_fetch) [])"
    using good [unfolded append.simps] c by blast
  then have "fst (get_metar ex_fetch [''06170'', ''99999'', ''06156'']) = [ex_record (- 1) 10 (- 2)]"
    by (simp add: r)
  ultimately show ?thesis using a b c by blast
qed

end
